theory Spec2Isabelle
  imports Complex_Main "HOL-Library.Multiset" "HOL-Library.Option_ord"
begin

section \<open>The JavaScript values the services compute with\<close>

text \<open>
  The services are JavaScript classes over a Sequelize connection. SQL statements are
  modelled by their relational meaning on tables (lists of rows); the JavaScript around
  them is modelled as it is written. The connection is the one of database.js, of the
  mysql dialect. Numbers are real numbers with NaN as \<open>None\<close>;
  rounding, overflow and the literal \<open>Infinity\<close> are left out. A thrown exception is the
  \<open>Inl\<close> of a sum: \<open>TypeError\<close> and \<open>Error\<close> are JavaScript's, \<open>QueryError\<close> is the
  rejection of \<open>sequelize.query\<close> for a statement that cannot run.

  With the query type SELECT, \<open>sequelize.query\<close> resolves to the array of the rows, so
  \<open>const [x] = await sequelize.query(...)\<close> binds the first row, or \<open>undefined\<close> when
  there is none. calculateOptimalAssignment, updateStatus and getScoringWeights rely on
  that shape (\<open>if (!workOrder)\<close>, \<open>current.status\<close>, \<open>weights.distance\<close>).
\<close>

datatype error = TypeError | Error string | QueryError

text \<open>
  Values whose shape the code inspects dynamically: a row of a result set is a plain
  object holding exactly the selected columns.
\<close>

datatype jsval = JUndefined | JNull | JNum real | JStr string | JObj "(string \<times> jsval) list"

datatype key = Prop string | Idx nat

definition digit_char :: "nat \<Rightarrow> char" where
  "digit_char d = char_of (48 + d)"

function string_of_nat :: "nat \<Rightarrow> string" where
  "string_of_nat n =
     (if n < 10 then [digit_char n] else string_of_nat (n div 10) @ [digit_char (n mod 10)])"
  by pat_completeness auto
termination
  by (relation "measure id") auto

declare string_of_nat.simps [simp del]

fun key_name :: "key \<Rightarrow> string" where
  "key_name (Prop p) = p"
| "key_name (Idx i) = string_of_nat i"

definition is_digit :: "char \<Rightarrow> bool" where
  "is_digit c = (48 \<le> (of_char c :: nat) \<and> (of_char c :: nat) \<le> 57)"

definition is_space :: "char \<Rightarrow> bool" where
  "is_space c = ((of_char c :: nat) = 32 \<or> (9 \<le> (of_char c :: nat) \<and> (of_char c :: nat) \<le> 13))"

definition digits_value :: "string \<Rightarrow> nat" where
  "digits_value ds = fold (\<lambda>c n. 10 * n + ((of_char c :: nat) - 48)) ds 0"

text \<open>A sign: the factor and the rest of the input.\<close>

fun str_sign :: "string \<Rightarrow> real \<times> string" where
  "str_sign [] = (1, [])"
| "str_sign (c # r) =
     (if c = CHR ''-'' then (-1, r) else if c = CHR ''+'' then (1, r) else (1, c # r))"

text \<open>The fraction after the integer digits: its digits and the rest of the input.\<close>

fun str_fraction :: "string \<Rightarrow> string \<times> string" where
  "str_fraction [] = ([], [])"
| "str_fraction (c # r) =
     (if c = CHR ''.'' then (takeWhile is_digit r, dropWhile is_digit r) else ([], c # r))"

text \<open>
  The exponent part: \<open>e\<close> or \<open>E\<close>, a sign and at least one digit; anything else is no
  exponent and stays in the rest.
\<close>

fun str_exponent :: "string \<Rightarrow> real \<times> string" where
  "str_exponent [] = (1, [])"
| "str_exponent (c # r) =
     (if c = CHR ''e'' \<or> c = CHR ''E'' then
        (case str_sign r of (sg, r') \<Rightarrow>
           if takeWhile is_digit r' = [] then (1, c # r)
           else (if sg < 0 then 1 / 10 ^ digits_value (takeWhile is_digit r')
                 else 10 ^ digits_value (takeWhile is_digit r'),
                 dropWhile is_digit r'))
      else (1, c # r))"

text \<open>
  The longest prefix that is a decimal literal (StrDecimalLiteral without \<open>Infinity\<close>),
  with its value and the unread rest; \<open>None\<close> when there is no such prefix.
\<close>

definition str_decimal :: "string \<Rightarrow> (real \<times> string) option" where
  "str_decimal s =
     (case str_sign s of (sg, s1) \<Rightarrow>
        let ip = takeWhile is_digit s1 in
        (case str_fraction (dropWhile is_digit s1) of (fp, s3) \<Rightarrow>
           if ip = [] \<and> fp = [] then None
           else (case str_exponent s3 of (ex, rest) \<Rightarrow>
                   Some (sg * (real (digits_value ip) + real (digits_value fp) / 10 ^ length fp) * ex,
                         rest))))"

text \<open>\<open>parseFloat(x)\<close>: \<open>null\<close> reads as the text "null", which is NaN.\<close>

definition parseFloat :: "string option \<Rightarrow> real option" where
  "parseFloat x =
     (case x of None \<Rightarrow> None
      | Some s \<Rightarrow> map_option fst (str_decimal (dropWhile is_space s)))"

text \<open>ToNumber of a string: the whole trimmed text is a decimal literal, or empty.\<close>

definition number_of_string :: "string \<Rightarrow> real option" where
  "number_of_string s =
     (let t = rev (dropWhile is_space (rev (dropWhile is_space s))) in
      if t = [] then Some 0
      else (case str_decimal t of
              None \<Rightarrow> None
            | Some (v, rest) \<Rightarrow> if rest = [] then Some v else None))"

fun to_number :: "jsval \<Rightarrow> real option" where
  "to_number JUndefined = None"
| "to_number JNull = Some 0"
| "to_number (JNum x) = Some x"
| "to_number (JStr s) = number_of_string s"
| "to_number (JObj kvs) = None"

text \<open>\<open>v > c\<close>: false when \<open>v\<close> converts to NaN.\<close>

definition js_gt :: "jsval \<Rightarrow> real \<Rightarrow> bool" where
  "js_gt v c = (case to_number v of None \<Rightarrow> False | Some x \<Rightarrow> c < x)"

fun js_truthy :: "jsval \<Rightarrow> bool" where
  "js_truthy JUndefined = False"
| "js_truthy JNull = False"
| "js_truthy (JNum x) = (x \<noteq> 0)"
| "js_truthy (JStr s) = (s \<noteq> [])"
| "js_truthy (JObj kvs) = True"

text \<open>
  Reading a property: of \<open>undefined\<close> or \<open>null\<close> it throws; of an object it is the
  stored value, or \<open>undefined\<close> when the object has no such key.
\<close>

fun js_get :: "jsval \<Rightarrow> key \<Rightarrow> error + jsval" where
  "js_get JUndefined k = Inl TypeError"
| "js_get JNull k = Inl TypeError"
| "js_get (JNum x) k = Inr JUndefined"
| "js_get (JStr s) (Idx i) = Inr (if i < length s then JStr [s ! i] else JUndefined)"
| "js_get (JStr s) (Prop p) =
     Inr (if p = ''length'' then JNum (real (length s)) else JUndefined)"
| "js_get (JObj kvs) k =
     Inr (case map_of kvs (key_name k) of None \<Rightarrow> JUndefined | Some v \<Rightarrow> v)"

text \<open>
  \<open>const [x] = rows\<close>: the first element of the array, \<open>undefined\<close> when it is empty.
\<close>

fun js_first :: "jsval list \<Rightarrow> jsval" where
  "js_first [] = JUndefined"
| "js_first (r # rs) = r"

text \<open>
  \<open>for (const x of v)\<close>: a string yields its characters; a plain object, a number,
  \<open>undefined\<close> and \<open>null\<close> are not iterable.
\<close>

fun js_iterate :: "jsval \<Rightarrow> error + jsval list" where
  "js_iterate (JStr s) = Inr (map (\<lambda>c. JStr [c]) s)"
| "js_iterate v = Inl TypeError"

text \<open>\<open>x || d\<close> on numbers: NaN and 0 are falsy.\<close>

definition or_default :: "real option \<Rightarrow> real \<Rightarrow> real" where
  "or_default x d = (case x of None \<Rightarrow> d | Some v \<Rightarrow> if v = 0 then d else v)"

text \<open>\<open>!x\<close> on a nullable number column.\<close>

definition falsy :: "real option \<Rightarrow> bool" where
  "falsy x = (case x of None \<Rightarrow> True | Some v \<Rightarrow> v = 0)"

section \<open>Tables\<close>

text \<open>
  The schema is not part of the sources; the columns are those the statements name, the
  enumerations those of the data model. Timestamps are seconds, dates are days.
\<close>

type_synonym timestamp = int

datatype priority = ALTA | MEDIA | BASSA

datatype wo_status =
  ricevuto | assegnato | preso_in_carico | in_viaggio | arrivato_sul_posto
  | in_lavorazione | completato | validato | sospeso

datatype team_status =
  disponibile | squadra_in_viaggio | squadra_in_lavorazione | fuori_servizio

datatype emergency_status = attiva | in_gestione | risolta

datatype emergency_team_status = allertata | et_in_viaggio | sul_posto | smobilitata

record work_order =
  wo_id :: nat
  wo_geocall_id :: "string option"
  wo_code :: string
  wo_priority :: priority
  wo_type :: string
  wo_description :: string
  wo_location :: "(real \<times> real) option"
  wo_address :: string
  wo_status :: wo_status
  wo_response_time_limit :: "real option"
  wo_assigned_team_id :: "nat option"
  wo_assigned_by :: "nat option"
  wo_assignment_mode :: "string option"
  wo_assignment_score :: "real option"
  wo_notes :: "string option"
  wo_created_at :: timestamp
  wo_received_at :: "timestamp option"
  wo_assigned_at :: "timestamp option"
  wo_taken_in_charge_at :: "timestamp option"
  wo_departure_at :: "timestamp option"
  wo_arrival_at :: "timestamp option"
  wo_work_started_at :: "timestamp option"
  wo_work_completed_at :: "timestamp option"
  wo_validated_at :: "timestamp option"
  wo_updated_at :: "timestamp option"

record team =
  t_id :: nat
  t_code :: string
  t_name :: string
  t_status :: team_status
  t_current_location :: "(real \<times> real) option"
  t_is_active :: bool
  t_updated_at :: "timestamp option"

record vehicle =
  v_id :: nat
  v_assigned_team_id :: "nat option"

record team_competence =
  tc_team_id :: nat
  tc_competence_type :: string
  tc_expiry_date :: "int option"

record status_history =
  h_work_order_id :: nat
  h_old_status :: wo_status
  h_new_status :: wo_status
  h_changed_by :: "nat option"
  h_notes :: "string option"

datatype alert_text = Velocita_rilevata real | Movimento_rilevato timestamp

record vehicle_alert =
  a_id :: nat
  a_vehicle_id :: nat
  a_alert_type :: string
  a_description :: alert_text
  a_severity :: string
  a_is_resolved :: bool
  a_created_at :: timestamp

record emergency =
  e_id :: nat
  e_code :: string
  e_type :: string
  e_description :: string
  e_severity :: string
  e_status :: emergency_status
  e_activated_at :: "timestamp option"
  e_activated_by :: "nat option"
  e_deactivated_at :: "timestamp option"
  e_deactivated_by :: "nat option"
  e_updated_at :: "timestamp option"

record emergency_team =
  et_emergency_id :: nat
  et_team_id :: nat
  et_status :: emergency_team_status
  et_mobilized_at :: "timestamp option"
  et_arrived_at :: "timestamp option"
  et_demobilized_at :: "timestamp option"

record timeline_event =
  tl_emergency_id :: nat
  tl_event_type :: string
  tl_description :: string
  tl_performed_by :: "nat option"
  tl_created_at :: timestamp

text \<open>
  The store: the tables, and the callbacks that \<open>setTimeout\<close> has scheduled (delay in
  milliseconds and the work order to assign automatically).
\<close>

record store =
  work_orders :: "work_order list"
  teams :: "team list"
  vehicles :: "vehicle list"
  team_competences :: "team_competence list"
  system_config :: "(string \<times> string) list"
  work_order_status_history :: "status_history list"
  vehicle_alerts :: "vehicle_alert list"
  emergencies :: "emergency list"
  emergency_teams :: "emergency_team list"
  emergency_timeline :: "timeline_event list"
  users :: "(nat \<times> string) list"
  timers :: "(nat \<times> jsval) list"

section \<open>WorkOrderService: scoring\<close>

text \<open>An object with one number per criterion: the sub-scores, and the weights.\<close>

record criteria =
  distance :: real
  competence :: real
  materials :: real
  workload :: real

text \<open>A row of the teams query of calculateOptimalAssignment.\<close>

record team_row =
  tr_id :: nat
  tr_code :: string
  tr_name :: string
  tr_status :: team_status
  tr_longitude :: "real option"
  tr_latitude :: "real option"
  tr_vehicle_id :: "nat option"
  tr_active_work_orders :: nat

record scored_team =
  team_id :: nat
  team_code :: string
  team_name :: string
  scores :: criteria
  total_score :: real
  estimated_arrival_time :: "int option"

text \<open>
  \<open>COUNT(DISTINCT wo.id)\<close> over the work orders joined to a team: those assigned to it
  whose status is neither completato nor validato.
\<close>

definition active_work_orders_of :: "store \<Rightarrow> nat \<Rightarrow> nat" where
  "active_work_orders_of s tid =
     length (remdups (map wo_id (filter
       (\<lambda>w. wo_assigned_team_id w = Some tid \<and> wo_status w \<noteq> completato \<and> wo_status w \<noteq> validato)
       (work_orders s))))"

text \<open>
  \<open>LEFT JOIN vehicles v ON t.id = v.assigned_team_id\<close>: one joined row per vehicle of
  the team, and one with a null vehicle when it has none.
\<close>

definition vehicles_of :: "store \<Rightarrow> nat \<Rightarrow> nat option list" where
  "vehicles_of s tid =
     (case filter (\<lambda>v. v_assigned_team_id v = Some tid) (vehicles s) of
        [] \<Rightarrow> [None]
      | v # vs \<Rightarrow> map (\<lambda>x. Some (v_id x)) (v # vs))"

definition eligible :: "team \<Rightarrow> bool" where
  "eligible t =
     (t_is_active t \<and>
      (t_status t = disponibile \<or> t_status t = squadra_in_viaggio \<or> t_status t = squadra_in_lavorazione))"

definition team_rows :: "store \<Rightarrow> team \<Rightarrow> team_row list" where
  "team_rows s t =
     map (\<lambda>vid. \<lparr> tr_id = t_id t, tr_code = t_code t, tr_name = t_name t, tr_status = t_status t,
                  tr_longitude = map_option fst (t_current_location t),
                  tr_latitude = map_option snd (t_current_location t),
                  tr_vehicle_id = vid,
                  tr_active_work_orders = active_work_orders_of s (t_id t) \<rparr>)
         (vehicles_of s (t_id t))"

text \<open>The teams query: grouped by team and vehicle, in table order.\<close>

definition candidate_teams :: "store \<Rightarrow> team_row list" where
  "candidate_teams s = concat (map (team_rows s) (filter eligible (teams s)))"

text \<open>
  \<open>geolib.getDistance\<close> is a parameter: metres between two (latitude, longitude) points.
\<close>

definition calculateDistanceScore ::
  "(real \<times> real \<Rightarrow> real \<times> real \<Rightarrow> real) \<Rightarrow> store \<Rightarrow> work_order \<Rightarrow> team_row \<Rightarrow> real" where
  "calculateDistanceScore getDistance s workOrder team =
     (if falsy (tr_latitude team) \<or> falsy (tr_longitude team) \<or> wo_location workOrder = None
      then 0
      else (case filter (\<lambda>w. wo_id w = wo_id workOrder) (work_orders s) of
              [] \<Rightarrow> 0
            | odl # rest \<Rightarrow>
                if falsy (map_option fst (wo_location odl)) \<or> falsy (map_option snd (wo_location odl))
                then 0
                else (case (tr_latitude team, tr_longitude team, wo_location odl) of
                        (Some tlat, Some tlon, Some (lon, lat)) \<Rightarrow>
                          max 0 (100 - getDistance (tlat, tlon) (lat, lon) / 1000)
                      | _ \<Rightarrow> 0)))"

definition competenceMap :: "(string \<times> string list) list" where
  "competenceMap =
     [(''riparazione_perdita'', [''saldatura_polietilene'', ''lavori_scavo'']),
      (''spurgo_fogna'', [''autospurgo'', ''ambienti_confinati'']),
      (''sostituzione_pozzetto'', [''muratura'', ''lavori_scavo'']),
      (''videoispezione'', [''videocamera_fognature'', ''interpretazione_immagini''])]"

definition getRequiredCompetences :: "string \<Rightarrow> string list" where
  "getRequiredCompetences workOrderType =
     (case map_of competenceMap workOrderType of None \<Rightarrow> [] | Some cs \<Rightarrow> cs)"

definition materialsMap :: "(string \<times> string list) list" where
  "materialsMap =
     [(''riparazione_perdita'', [''tubo_pe_100mm'', ''raccordi'', ''nastro_segnalatore'']),
      (''spurgo_fogna'', []),
      (''sostituzione_pozzetto'', [''pozzetto_prefabbricato'', ''malta'', ''chiusino'']),
      (''videoispezione'', [])]"

definition getRequiredMaterials :: "string \<Rightarrow> string list" where
  "getRequiredMaterials workOrderType =
     (case map_of materialsMap workOrderType of None \<Rightarrow> [] | Some ms \<Rightarrow> ms)"

text \<open>The count of the team's valid competences among the required ones, over their number.\<close>

definition calculateCompetenceScore :: "int \<Rightarrow> store \<Rightarrow> work_order \<Rightarrow> team_row \<Rightarrow> real" where
  "calculateCompetenceScore curdate s workOrder team =
     (let requiredCompetences = getRequiredCompetences (wo_type workOrder) in
      if length requiredCompetences = 0 then 100
      else real (length (filter
             (\<lambda>c. tc_team_id c = tr_id team \<and> List.member requiredCompetences (tc_competence_type c)
                  \<and> (case tc_expiry_date c of None \<Rightarrow> True | Some d \<Rightarrow> curdate < d))
             (team_competences s)))
           / real (length requiredCompetences) * 100)"

definition calculateMaterialsScore :: "work_order \<Rightarrow> team_row \<Rightarrow> real" where
  "calculateMaterialsScore workOrder team =
     (if length (getRequiredMaterials (wo_type workOrder)) = 0 then 100 else 70)"

definition calculateWorkloadScore :: "team_row \<Rightarrow> real" where
  "calculateWorkloadScore team = max 0 (100 - real (tr_active_work_orders team) * 20)"

definition calculateETA :: "work_order \<Rightarrow> team_row \<Rightarrow> int option" where
  "calculateETA workOrder team =
     (if falsy (tr_latitude team) \<or> falsy (tr_longitude team) then None
      else Some \<lceil>((10::real) / 40) * 60\<rceil>)"

text \<open>
  The scalar the weights query selects for a key: the unquoted text of the value stored
  under it, null when there is no such row.
\<close>

definition config_text :: "store \<Rightarrow> string \<Rightarrow> string option" where
  "config_text s k = map_of (system_config s) k"

definition getScoringWeights :: "store \<Rightarrow> criteria" where
  "getScoringWeights s =
     \<lparr> distance = or_default (parseFloat (config_text s ''scoring_weight_distance'')) 0.40,
       competence = or_default (parseFloat (config_text s ''scoring_weight_competence'')) 0.25,
       materials = or_default (parseFloat (config_text s ''scoring_weight_materials'')) 0.20,
       workload = or_default (parseFloat (config_text s ''scoring_weight_workload'')) 0.15 \<rparr>"

text \<open>The body of the loop over the teams: the four sub-scores and the weighted total.\<close>

definition team_scores ::
  "(real \<times> real \<Rightarrow> real \<times> real \<Rightarrow> real) \<Rightarrow> int \<Rightarrow> store \<Rightarrow> work_order \<Rightarrow> team_row \<Rightarrow> criteria" where
  "team_scores getDistance curdate s workOrder team =
     \<lparr> distance = calculateDistanceScore getDistance s workOrder team,
       competence = calculateCompetenceScore curdate s workOrder team,
       materials = calculateMaterialsScore workOrder team,
       workload = calculateWorkloadScore team \<rparr>"

definition totalScore :: "criteria \<Rightarrow> criteria \<Rightarrow> real" where
  "totalScore sc weights =
     distance sc * distance weights + competence sc * competence weights
     + materials sc * materials weights + workload sc * workload weights"

definition score_team ::
  "(real \<times> real \<Rightarrow> real \<times> real \<Rightarrow> real) \<Rightarrow> int \<Rightarrow> store \<Rightarrow> criteria \<Rightarrow> work_order \<Rightarrow> team_row
   \<Rightarrow> scored_team" where
  "score_team getDistance curdate s weights workOrder team =
     \<lparr> team_id = tr_id team, team_code = tr_code team, team_name = tr_name team,
       scores = team_scores getDistance curdate s workOrder team,
       total_score = totalScore (team_scores getDistance curdate s workOrder team) weights,
       estimated_arrival_time = calculateETA workOrder team \<rparr>"

text \<open>
  The array sort with comparator \<open>b.total_score - a.total_score\<close> is stable: equal
  totals keep the order of the rows.
\<close>

definition calculateOptimalAssignment ::
  "(real \<times> real \<Rightarrow> real \<times> real \<Rightarrow> real) \<Rightarrow> int \<Rightarrow> store \<Rightarrow> nat \<Rightarrow> error + scored_team list" where
  "calculateOptimalAssignment getDistance curdate s workOrderId =
     (case filter (\<lambda>w. wo_id w = workOrderId) (work_orders s) of
        [] \<Rightarrow> Inl (Error ''ODL non trovato'')
      | workOrder # rest \<Rightarrow>
          if length (candidate_teams s) = 0 then Inl (Error ''Nessuna squadra disponibile'')
          else Inr (sort_key (\<lambda>e. - total_score e)
                      (map (score_team getDistance curdate s (getScoringWeights s) workOrder)
                           (candidate_teams s))))"

section \<open>WorkOrderService: status changes\<close>

fun getTimestampField :: "wo_status \<Rightarrow> string option" where
  "getTimestampField assegnato = Some ''assigned_at''"
| "getTimestampField preso_in_carico = Some ''taken_in_charge_at''"
| "getTimestampField in_viaggio = Some ''departure_at''"
| "getTimestampField arrivato_sul_posto = Some ''arrival_at''"
| "getTimestampField in_lavorazione = Some ''work_started_at''"
| "getTimestampField completato = Some ''work_completed_at''"
| "getTimestampField validato = Some ''validated_at''"
| "getTimestampField st = None"

text \<open>\<open>SET field = NOW()\<close> for the column named by the text.\<close>

definition set_timestamp :: "string \<Rightarrow> timestamp \<Rightarrow> work_order \<Rightarrow> work_order" where
  "set_timestamp field now w =
     (if field = ''assigned_at'' then w\<lparr>wo_assigned_at := Some now\<rparr>
      else if field = ''taken_in_charge_at'' then w\<lparr>wo_taken_in_charge_at := Some now\<rparr>
      else if field = ''departure_at'' then w\<lparr>wo_departure_at := Some now\<rparr>
      else if field = ''arrival_at'' then w\<lparr>wo_arrival_at := Some now\<rparr>
      else if field = ''work_started_at'' then w\<lparr>wo_work_started_at := Some now\<rparr>
      else if field = ''work_completed_at'' then w\<lparr>wo_work_completed_at := Some now\<rparr>
      else if field = ''validated_at'' then w\<lparr>wo_validated_at := Some now\<rparr>
      else w)"

text \<open>
  The scalar subquery \<open>SELECT assigned_team_id FROM work_orders WHERE id = :workOrderId\<close>:
  null when there is no such order.
\<close>

definition assigned_team_of :: "store \<Rightarrow> nat \<Rightarrow> nat option" where
  "assigned_team_of s workOrderId =
     (case filter (\<lambda>w. wo_id w = workOrderId) (work_orders s) of
        [] \<Rightarrow> None
      | w # rest \<Rightarrow> wo_assigned_team_id w)"

definition updateTeamStatus :: "timestamp \<Rightarrow> store \<Rightarrow> nat \<Rightarrow> team_status \<Rightarrow> store" where
  "updateTeamStatus now s workOrderId st =
     s\<lparr>teams := map (\<lambda>t. if Some (t_id t) = assigned_team_of s workOrderId
                          then t\<lparr>t_status := st, t_updated_at := Some now\<rparr> else t)
                    (teams s)\<rparr>"

definition update_order_status :: "timestamp \<Rightarrow> wo_status \<Rightarrow> work_order \<Rightarrow> work_order" where
  "update_order_status now newStatus w =
     (case getTimestampField newStatus of
        None \<Rightarrow> w\<lparr>wo_status := newStatus, wo_updated_at := Some now\<rparr>
      | Some timestampField \<Rightarrow>
          set_timestamp timestampField now (w\<lparr>wo_status := newStatus, wo_updated_at := Some now\<rparr>))"

definition updateStatus ::
  "timestamp \<Rightarrow> store \<Rightarrow> nat \<Rightarrow> wo_status \<Rightarrow> nat option \<Rightarrow> string option
   \<Rightarrow> (error + bool) \<times> store" where
  "updateStatus now s workOrderId newStatus userId notes =
     (case filter (\<lambda>w. wo_id w = workOrderId) (work_orders s) of
        [] \<Rightarrow> (Inl (Error ''ODL non trovato''), s)
      | current # rest \<Rightarrow>
          let oldStatus = wo_status current;
              s1 = s\<lparr>work_orders :=
                      map (\<lambda>w. if wo_id w = workOrderId then update_order_status now newStatus w else w)
                          (work_orders s)\<rparr>;
              s2 = s1\<lparr>work_order_status_history :=
                       work_order_status_history s1 @
                       [\<lparr> h_work_order_id = workOrderId, h_old_status = oldStatus,
                          h_new_status = newStatus, h_changed_by = userId, h_notes = notes \<rparr>]\<rparr>;
              s3 = (if newStatus = in_viaggio then updateTeamStatus now s2 workOrderId squadra_in_viaggio
                    else if newStatus = in_lavorazione
                         then updateTeamStatus now s2 workOrderId squadra_in_lavorazione
                    else if newStatus = completato then updateTeamStatus now s2 workOrderId disponibile
                    else s2)
          in (Inr True, s3))"

section \<open>EmergencyService\<close>

text \<open>The note the suspension appends: a line break, the text and the emergency's id.\<close>

definition suspension_note :: "string option \<Rightarrow> nat \<Rightarrow> string" where
  "suspension_note notes emergencyId =
     (case notes of None \<Rightarrow> [] | Some n \<Rightarrow> n) @ [CHR 0x0A] @ ''Sospeso per emergenza ''
     @ string_of_nat emergencyId"

definition suspended_by :: "nat \<Rightarrow> work_order \<Rightarrow> bool" where
  "suspended_by teamId w =
     (wo_assigned_team_id w = Some teamId
      \<and> (wo_status w = assegnato \<or> wo_status w = in_viaggio)
      \<and> wo_priority w \<noteq> ALTA)"

datatype dialect = mysql | postgres

text \<open>The connection of database.js: \<open>dialect: 'mysql'\<close>.\<close>

definition database_dialect :: dialect where
  "database_dialect = mysql"

text \<open>
  The third statement of mobilizeTeam writes the emergency's id as
  \<open>:emergencyId::text\<close>, the cast of PostgreSQL. Under the mysql dialect the statement
  cannot run: \<open>sequelize.query\<close> rejects, nothing is updated, and mobilizeTeam logs and
  rethrows, after the insert and the update of the team have been done.
\<close>

definition accepts_cast :: "dialect \<Rightarrow> bool" where
  "accepts_cast d = (d = postgres)"

definition mobilizeTeam_on ::
  "dialect \<Rightarrow> timestamp \<Rightarrow> store \<Rightarrow> nat \<Rightarrow> nat \<Rightarrow> nat option \<Rightarrow> (error + unit) \<times> store" where
  "mobilizeTeam_on d now s emergencyId teamId mobilizedBy =
     (let s1 = s\<lparr>emergency_teams :=
                   emergency_teams s @
                   [\<lparr> et_emergency_id = emergencyId, et_team_id = teamId, et_status = allertata,
                      et_mobilized_at = Some now, et_arrived_at = None,
                      et_demobilized_at = None \<rparr>]\<rparr>;
          s2 = s1\<lparr>teams :=
                    map (\<lambda>t. if t_id t = teamId
                             then t\<lparr>t_status := squadra_in_viaggio, t_updated_at := Some now\<rparr>
                             else t)
                        (teams s1)\<rparr>
      in if accepts_cast d
         then (Inr (),
               s2\<lparr>work_orders :=
                    map (\<lambda>w. if suspended_by teamId w
                             then w\<lparr>wo_status := sospeso,
                                    wo_notes := Some (suspension_note (wo_notes w) emergencyId)\<rparr>
                             else w)
                        (work_orders s2)\<rparr>)
         else (Inl QueryError, s2))"

definition mobilizeTeam ::
  "timestamp \<Rightarrow> store \<Rightarrow> nat \<Rightarrow> nat \<Rightarrow> nat option \<Rightarrow> (error + unit) \<times> store" where
  "mobilizeTeam now s emergencyId teamId mobilizedBy =
     mobilizeTeam_on database_dialect now s emergencyId teamId mobilizedBy"

definition logTimeline ::
  "timestamp \<Rightarrow> store \<Rightarrow> nat \<Rightarrow> string \<Rightarrow> string \<Rightarrow> nat option \<Rightarrow> store" where
  "logTimeline now s emergencyId eventType descr performedBy =
     s\<lparr>emergency_timeline :=
         emergency_timeline s @
         [\<lparr> tl_emergency_id = emergencyId, tl_event_type = eventType, tl_description = descr,
            tl_performed_by = performedBy, tl_created_at = now \<rparr>]\<rparr>"

text \<open>Columns as JavaScript values: null for SQL NULL.\<close>

definition js_time :: "timestamp option \<Rightarrow> jsval" where
  "js_time x = (case x of None \<Rightarrow> JNull | Some ts \<Rightarrow> JNum (real_of_int ts))"

definition js_user :: "nat option \<Rightarrow> jsval" where
  "js_user x = (case x of None \<Rightarrow> JNull | Some u \<Rightarrow> JNum (real u))"

definition js_username :: "store \<Rightarrow> nat option \<Rightarrow> jsval" where
  "js_username s x =
     (case x of None \<Rightarrow> JNull
      | Some u \<Rightarrow> (case map_of (users s) u of None \<Rightarrow> JNull | Some n \<Rightarrow> JStr n))"

fun emergency_status_text :: "emergency_status \<Rightarrow> string" where
  "emergency_status_text attiva = ''attiva''"
| "emergency_status_text in_gestione = ''in_gestione''"
| "emergency_status_text risolta = ''risolta''"

fun emergency_team_status_text :: "emergency_team_status \<Rightarrow> string" where
  "emergency_team_status_text allertata = ''allertata''"
| "emergency_team_status_text et_in_viaggio = ''in_viaggio''"
| "emergency_team_status_text sul_posto = ''sul_posto''"
| "emergency_team_status_text smobilitata = ''smobilitata''"

text \<open>A row of \<open>SELECT e.*, ... FROM emergencies e LEFT JOIN users ...\<close>.\<close>

definition emergency_row :: "store \<Rightarrow> emergency \<Rightarrow> jsval" where
  "emergency_row s e =
     JObj [(''id'', JNum (real (e_id e))), (''code'', JStr (e_code e)), (''type'', JStr (e_type e)),
           (''description'', JStr (e_description e)), (''severity'', JStr (e_severity e)),
           (''status'', JStr (emergency_status_text (e_status e))),
           (''activated_at'', js_time (e_activated_at e)),
           (''activated_by'', js_user (e_activated_by e)),
           (''deactivated_at'', js_time (e_deactivated_at e)),
           (''deactivated_by'', js_user (e_deactivated_by e)),
           (''updated_at'', js_time (e_updated_at e)),
           (''activated_by_username'', js_username s (e_activated_by e)),
           (''deactivated_by_username'', js_username s (e_deactivated_by e))]"

text \<open>A property of a value that is known to be neither \<open>undefined\<close> nor \<open>null\<close>.\<close>

definition js_prop :: "jsval \<Rightarrow> string \<Rightarrow> jsval" where
  "js_prop v p = (case js_get v (Prop p) of Inl e \<Rightarrow> JUndefined | Inr x \<Rightarrow> x)"

text \<open>
  The duration in minutes, \<open>Math.round\<close> of the difference of the two times, or null when
  one of them is falsy.
\<close>

definition duration_minutes :: "jsval \<Rightarrow> jsval \<Rightarrow> jsval" where
  "duration_minutes deactivated activated =
     (if js_truthy deactivated \<and> js_truthy activated then
        (case (to_number deactivated, to_number activated) of
           (Some d, Some a) \<Rightarrow> JNum (real_of_int \<lfloor>(d - a) / 60 + 1 / 2\<rfloor>)
         | _ \<Rightarrow> JUndefined)
      else JNull)"

record emergency_report =
  rep_emergency :: jsval
  rep_teams :: "jsval list"
  rep_timeline :: "jsval list"

definition report_teams :: "store \<Rightarrow> nat \<Rightarrow> jsval list" where
  "report_teams s emergencyId =
     concat (map (\<lambda>et. map (\<lambda>t. JObj [(''code'', JStr (t_code t)), (''name'', JStr (t_name t)),
                                       (''mobilized_at'', js_time (et_mobilized_at et)),
                                       (''arrived_at'', js_time (et_arrived_at et)),
                                       (''demobilized_at'', js_time (et_demobilized_at et)),
                                       (''status'', JStr (emergency_team_status_text (et_status et)))])
                            (filter (\<lambda>t. t_id t = et_team_id et) (teams s)))
                 (sort_key et_mobilized_at
                    (filter (\<lambda>et. et_emergency_id et = emergencyId) (emergency_teams s))))"

definition report_timeline :: "store \<Rightarrow> nat \<Rightarrow> jsval list" where
  "report_timeline s emergencyId =
     map (\<lambda>ev. JObj [(''emergency_id'', JNum (real (tl_emergency_id ev))),
                     (''event_type'', JStr (tl_event_type ev)),
                     (''description'', JStr (tl_description ev)),
                     (''performed_by'', js_user (tl_performed_by ev)),
                     (''created_at'', JNum (real_of_int (tl_created_at ev))),
                     (''performed_by_username'', js_username s (tl_performed_by ev))])
         (sort_key tl_created_at
            (filter (\<lambda>ev. tl_emergency_id ev = emergencyId) (emergency_timeline s)))"

definition generateEmergencyReport :: "store \<Rightarrow> nat \<Rightarrow> error + emergency_report" where
  "generateEmergencyReport s emergencyId =
     (let emergency = js_first (map (emergency_row s)
                                   (filter (\<lambda>e. e_id e = emergencyId) (emergencies s))) in
      case js_get emergency (Idx 0) of
        Inl err \<Rightarrow> Inl err
      | Inr e \<Rightarrow>
          if \<not> js_truthy e then Inl (Error ''Emergency not found'')
          else Inr \<lparr> rep_emergency =
                       JObj [(''code'', js_prop e ''code''), (''type'', js_prop e ''type''),
                             (''description'', js_prop e ''description''),
                             (''severity'', js_prop e ''severity''),
                             (''activated_at'', js_prop e ''activated_at''),
                             (''deactivated_at'', js_prop e ''deactivated_at''),
                             (''duration_minutes'',
                                duration_minutes (js_prop e ''deactivated_at'') (js_prop e ''activated_at'')),
                             (''activated_by'', js_prop e ''activated_by_username''),
                             (''deactivated_by'', js_prop e ''deactivated_by_username'')],
                     rep_teams = report_teams s emergencyId,
                     rep_timeline = report_timeline s emergencyId \<rparr>)"

text \<open>
  The loop that restores the teams: each element's \<open>team_id\<close> is the replacement of
  \<open>UPDATE teams SET status = 'disponibile' WHERE id = :teamId\<close>; Sequelize refuses a
  replacement that is \<open>undefined\<close>.
\<close>

fun restore_teams :: "timestamp \<Rightarrow> store \<Rightarrow> jsval list \<Rightarrow> (error + unit) \<times> store" where
  "restore_teams now s [] = (Inr (), s)"
| "restore_teams now s (team # others) =
     (case js_get team (Prop ''team_id'') of
        Inl err \<Rightarrow> (Inl err, s)
      | Inr teamId \<Rightarrow>
          if teamId = JUndefined
          then (Inl (Error ''Named parameter :teamId has no value in the given object.''), s)
          else restore_teams now
                 (s\<lparr>teams := map (\<lambda>t. if to_number teamId = Some (real (t_id t))
                                       then t\<lparr>t_status := disponibile, t_updated_at := Some now\<rparr>
                                       else t)
                                 (teams s)\<rparr>)
                 others)"

definition deactivateEmergency ::
  "timestamp \<Rightarrow> store \<Rightarrow> nat \<Rightarrow> nat option \<Rightarrow> (error + emergency_report) \<times> store" where
  "deactivateEmergency now s emergencyId deactivatedBy =
     (let s1 = s\<lparr>emergencies :=
                   map (\<lambda>e. if e_id e = emergencyId
                            then e\<lparr>e_status := risolta, e_deactivated_at := Some now,
                                   e_deactivated_by := deactivatedBy, e_updated_at := Some now\<rparr>
                            else e)
                       (emergencies s)\<rparr>;
          s2 = s1\<lparr>emergency_teams :=
                    map (\<lambda>et. if et_emergency_id et = emergencyId \<and> et_status et \<noteq> smobilitata
                              then et\<lparr>et_status := smobilitata, et_demobilized_at := Some now\<rparr>
                              else et)
                        (emergency_teams s1)\<rparr>;
          teams = js_first (map (\<lambda>et. JObj [(''team_id'', JNum (real (et_team_id et)))])
                                (filter (\<lambda>et. et_emergency_id et = emergencyId) (emergency_teams s2)))
      in case js_iterate teams of
           Inl err \<Rightarrow> (Inl err, s2)
         | Inr elements \<Rightarrow>
             (case restore_teams now s2 elements of
                (Inl err, s3) \<Rightarrow> (Inl err, s3)
              | (Inr u, s3) \<Rightarrow>
                  let s4 = logTimeline now s3 emergencyId ''emergenza_risolta''
                             ''Emergenza risolta e squadre smobilitate'' deactivatedBy
                  in (case generateEmergencyReport s4 emergencyId of
                        Inl err \<Rightarrow> (Inl err, s4)
                      | Inr report \<Rightarrow> (Inr report, s4))))"

section \<open>GpsTrackingService: anomalies\<close>

text \<open>The next value of an auto-increment key.\<close>

definition next_id :: "nat list \<Rightarrow> nat" where
  "next_id ids = Suc (fold max ids 0)"

text \<open>
  The row the check selects: an unresolved alert of the vehicle and type, created after
  \<open>NOW() - 24 hours\<close>.
\<close>

definition recent_unresolved :: "timestamp \<Rightarrow> nat \<Rightarrow> string \<Rightarrow> vehicle_alert \<Rightarrow> bool" where
  "recent_unresolved now vehicleId alertType a =
     (a_vehicle_id a = vehicleId \<and> a_alert_type a = alertType \<and> \<not> a_is_resolved a
      \<and> now - 86400 < a_created_at a)"

text \<open>
  The insert names four columns; \<open>is_resolved\<close> and \<open>created_at\<close> take the defaults the
  check relies on (unresolved, the current time). An exception inside is logged and not
  passed on.
\<close>

definition createAlert ::
  "timestamp \<Rightarrow> store \<Rightarrow> nat \<Rightarrow> string \<Rightarrow> alert_text \<Rightarrow> string \<Rightarrow> store" where
  "createAlert now s vehicleId alertType descr severity =
     (let existing = js_first (map (\<lambda>a. JObj [(''id'', JNum (real (a_id a)))])
                                  (take 1 (filter (recent_unresolved now vehicleId alertType)
                                             (vehicle_alerts s)))) in
      case js_get existing (Prop ''length'') of
        Inl err \<Rightarrow> s
      | Inr len \<Rightarrow>
          if js_gt len 0 then s
          else s\<lparr>vehicle_alerts :=
                   vehicle_alerts s @
                   [\<lparr> a_id = next_id (map a_id (vehicle_alerts s)), a_vehicle_id = vehicleId,
                      a_alert_type = alertType, a_description = descr, a_severity = severity,
                      a_is_resolved = False, a_created_at = now \<rparr>]\<rparr>)"

definition isVehicleInEmergency :: "store \<Rightarrow> nat \<Rightarrow> bool" where
  "isVehicleInEmergency s vehicleId =
     (0 < length [v. et \<leftarrow> emergency_teams s, e \<leftarrow> emergencies s, v \<leftarrow> vehicles s,
                    et_emergency_id et = e_id e \<and> v_assigned_team_id v = Some (et_team_id et)
                    \<and> v_id v = vehicleId
                    \<and> (e_status e = attiva \<or> e_status e = in_gestione)
                    \<and> (et_status et = allertata \<or> et_status et = et_in_viaggio
                        \<or> et_status et = sul_posto)])"

text \<open>\<open>currentHour\<close> is the local hour of the clock.\<close>

definition checkAnomalies :: "timestamp \<Rightarrow> nat \<Rightarrow> store \<Rightarrow> nat \<Rightarrow> real \<Rightarrow> store" where
  "checkAnomalies now currentHour s vehicleId speed =
     (let s1 = (if 90 < speed
                then createAlert now s vehicleId ''velocita_eccessiva'' (Velocita_rilevata speed)
                       ''medium''
                else s)
      in if 22 \<le> currentHour \<or> currentHour < 6 then
           (if \<not> isVehicleInEmergency s1 vehicleId
            then createAlert now s1 vehicleId ''uso_fuori_orario'' (Movimento_rilevato now) ''low''
            else s1)
         else s1)"

section \<open>GeocallService: import\<close>

record geocall_data =
  gd_id :: string
  gd_priority :: priority
  gd_type :: string
  gd_description :: string
  gd_longitude :: real
  gd_latitude :: real
  gd_address :: string

text \<open>
  The clock and the calendar: the current time, the year and the month (from 1) of the
  current date, and the year and month that SQL extracts from a stored time.
\<close>

record calendar =
  cal_now :: timestamp
  cal_year :: nat
  cal_month :: nat
  year_of :: "timestamp \<Rightarrow> nat"
  month_of :: "timestamp \<Rightarrow> nat"

definition padStart :: "nat \<Rightarrow> string \<Rightarrow> string" where
  "padStart n str = replicate (n - length str) (CHR ''0'') @ str"

text \<open>\<open>String(v + 1)\<close>; a number here is a count of rows.\<close>

fun plus_one_text :: "jsval \<Rightarrow> string" where
  "plus_one_text JUndefined = ''NaN''"
| "plus_one_text JNull = ''1''"
| "plus_one_text (JNum x) = string_of_nat (nat \<lfloor>x + 1\<rfloor>)"
| "plus_one_text (JStr str) = str @ ''1''"
| "plus_one_text (JObj kvs) = ''[object Object]1''"

definition generateWorkOrderCode :: "calendar \<Rightarrow> store \<Rightarrow> error + string" where
  "generateWorkOrderCode cal s =
     (let count = js_first
            [JObj [(''count'',
                    JNum (real (length (filter
                      (\<lambda>w. year_of cal (wo_created_at w) = cal_year cal
                           \<and> month_of cal (wo_created_at w) = cal_month cal)
                      (work_orders s)))))]] in
      case js_get count (Idx 0) of
        Inl err \<Rightarrow> Inl err
      | Inr c0 \<Rightarrow>
          (case js_get c0 (Prop ''count'') of
             Inl err \<Rightarrow> Inl err
           | Inr c \<Rightarrow>
               Inr (''ODL-'' @ string_of_nat (cal_year cal) @ padStart 2 (string_of_nat (cal_month cal))
                    @ ''-'' @ padStart 4 (plus_one_text c))))"

text \<open>\<open>decode\<close> is the driver's reading of a JSON column.\<close>

definition getResponseTimes :: "(string \<Rightarrow> jsval) \<Rightarrow> store \<Rightarrow> error + jsval" where
  "getResponseTimes decode s =
     (let config = js_first (map (\<lambda>r. JObj [(''value'', decode (snd r))])
                                (filter (\<lambda>r. fst r = ''priority_response_times'')
                                        (system_config s))) in
      case js_get config (Idx 0) of
        Inl err \<Rightarrow> Inl err
      | Inr c0 \<Rightarrow>
          (case js_get c0 (Prop ''value'') of
             Inl err \<Rightarrow> Inl err
           | Inr v \<Rightarrow>
               Inr (if js_truthy v then v
                    else JObj [(''ALTA'', JNum 120), (''MEDIA'', JNum 1440), (''BASSA'', JNull)])))"

fun priority_text :: "priority \<Rightarrow> string" where
  "priority_text ALTA = ''ALTA''"
| "priority_text MEDIA = ''MEDIA''"
| "priority_text BASSA = ''BASSA''"

definition imported_order ::
  "calendar \<Rightarrow> nat \<Rightarrow> string \<Rightarrow> jsval \<Rightarrow> geocall_data \<Rightarrow> work_order" where
  "imported_order cal newId code responseTimeLimit geocallData =
     \<lparr> wo_id = newId, wo_geocall_id = Some (gd_id geocallData), wo_code = code,
       wo_priority = gd_priority geocallData, wo_type = gd_type geocallData,
       wo_description = gd_description geocallData,
       wo_location = Some (gd_longitude geocallData, gd_latitude geocallData),
       wo_address = gd_address geocallData, wo_status = ricevuto,
       wo_response_time_limit = to_number responseTimeLimit,
       wo_assigned_team_id = None, wo_assigned_by = None, wo_assignment_mode = None,
       wo_assignment_score = None, wo_notes = None, wo_created_at = cal_now cal,
       wo_received_at = Some (cal_now cal), wo_assigned_at = None, wo_taken_in_charge_at = None,
       wo_departure_at = None, wo_arrival_at = None, wo_work_started_at = None,
       wo_work_completed_at = None, wo_validated_at = None, wo_updated_at = None \<rparr>"

text \<open>
  With the query type INSERT the MySQL dialect resolves to the pair of the new key and the
  number of rows, so \<open>const [result]\<close> binds the new key. The callback of \<open>setTimeout\<close>
  is recorded in \<open>timers\<close>.
\<close>

definition importWorkOrder ::
  "calendar \<Rightarrow> (string \<Rightarrow> jsval) \<Rightarrow> store \<Rightarrow> geocall_data \<Rightarrow> (error + jsval) \<times> store" where
  "importWorkOrder cal decode s geocallData =
     (let existing = js_first (map (\<lambda>w. JObj [(''id'', JNum (real (wo_id w)))])
                                  (filter (\<lambda>w. wo_geocall_id w = Some (gd_id geocallData))
                                          (work_orders s))) in
      case js_get existing (Prop ''length'') of
        Inl err \<Rightarrow> (Inl err, s)
      | Inr len \<Rightarrow>
          if js_gt len 0 then
            (case js_get existing (Idx 0) of
               Inl err \<Rightarrow> (Inl err, s)
             | Inr found \<Rightarrow> (Inr found, s))
          else
            (case generateWorkOrderCode cal s of
               Inl err \<Rightarrow> (Inl err, s)
             | Inr code \<Rightarrow>
                 (case getResponseTimes decode s of
                    Inl err \<Rightarrow> (Inl err, s)
                  | Inr responseTimes \<Rightarrow>
                      (case js_get responseTimes (Prop (priority_text (gd_priority geocallData))) of
                         Inl err \<Rightarrow> (Inl err, s)
                       | Inr responseTimeLimit \<Rightarrow>
                           if responseTimeLimit = JUndefined
                           then (Inl (Error ''Named parameter :responseTimeLimit has no value in the given object.''), s)
                           else
                             let newId = next_id (map wo_id (work_orders s));
                                 s1 = s\<lparr>work_orders :=
                                         work_orders s @
                                         [imported_order cal newId code responseTimeLimit geocallData]\<rparr>;
                                 result = JNum (real newId)
                             in (case js_get result (Idx 0) of
                                   Inl err \<Rightarrow> (Inl err, s1)
                                 | Inr r0 \<Rightarrow>
                                     (case js_get r0 (Idx 0) of
                                        Inl err \<Rightarrow> (Inl err, s1)
                                      | Inr r00 \<Rightarrow>
                                          (case js_get r00 (Prop ''id'') of
                                             Inl err \<Rightarrow> (Inl err, s1)
                                           | Inr workOrderId \<Rightarrow>
                                               (Inr (JObj [(''id'', workOrderId),
                                                           (''geocall_id'', JStr (gd_id geocallData))]),
                                                if gd_priority geocallData = ALTA
                                                then s1\<lparr>timers := timers s1 @ [(1000, workOrderId)]\<rparr>
                                                else s1))))))))"

section \<open>Sample data\<close>

definition empty_store :: store where
  "empty_store =
     \<lparr> work_orders = [], teams = [], vehicles = [], team_competences = [], system_config = [],
       work_order_status_history = [], vehicle_alerts = [], emergencies = [],
       emergency_teams = [], emergency_timeline = [], users = [], timers = [] \<rparr>"

text \<open>A received order of no listed intervention kind, in Rome.\<close>

definition odl1 :: work_order where
  "odl1 =
     \<lparr> wo_id = 1, wo_geocall_id = Some ''G-1001'', wo_code = ''ODL-202611-0001'',
       wo_priority = MEDIA, wo_type = ''sopralluogo'', wo_description = ''perdita'',
       wo_location = Some (12.5, 41.9), wo_address = ''via Appia 1'', wo_status = ricevuto,
       wo_response_time_limit = Some 1440,
       wo_assigned_team_id = None, wo_assigned_by = None, wo_assignment_mode = None,
       wo_assignment_score = None, wo_notes = None, wo_created_at = 1000,
       wo_received_at = Some 1000, wo_assigned_at = None, wo_taken_in_charge_at = None,
       wo_departure_at = None, wo_arrival_at = None, wo_work_started_at = None,
       wo_work_completed_at = None, wo_validated_at = None, wo_updated_at = None \<rparr>"

definition squadra1 :: team where
  "squadra1 =
     \<lparr> t_id = 7, t_code = ''SQ-07'', t_name = ''Squadra 7'', t_status = disponibile,
       t_current_location = Some (12.4, 41.8), t_is_active = True, t_updated_at = None \<rparr>"


text \<open>
  The great-circle distance in metres between two points given as (latitude, longitude)
  in degrees, by the spherical law of cosines on the sphere of radius 6378137 m.
\<close>

definition great_circle :: "real \<times> real \<Rightarrow> real \<times> real \<Rightarrow> real" where
  "great_circle a b =
     6378137 * arccos (sin (fst a * pi / 180) * sin (fst b * pi / 180)
                       + cos (fst a * pi / 180) * cos (fst b * pi / 180)
                         * cos (snd a * pi / 180 - snd b * pi / 180))"

text \<open>The degrees of latitude that span a number of metres along a meridian.\<close>

definition meridian_degrees :: "real \<Rightarrow> real" where
  "meridian_degrees m = m * 180 / (6378137 * pi)"

text \<open>The sample order at a given longitude and latitude.\<close>

definition odl_at :: "real \<Rightarrow> real \<Rightarrow> work_order" where
  "odl_at lon lat = odl1\<lparr>wo_location := Some (lon, lat)\<rparr>"

text \<open>The team on the equator at longitude 10, and an order some metres north of it.\<close>

definition squadra_equatore :: team where
  "squadra_equatore = squadra1\<lparr>t_current_location := Some (10, 0)\<rparr>"

definition store_equator :: "real \<Rightarrow> store" where
  "store_equator m =
     empty_store\<lparr>work_orders := [odl_at 10 (meridian_degrees m)], teams := [squadra_equatore]\<rparr>"

text \<open>The team in Rome and an order some metres north of it.\<close>

definition store_rome :: "real \<Rightarrow> store" where
  "store_rome m =
     empty_store\<lparr>work_orders := [odl_at 12.4 (41.8 + meridian_degrees m)], teams := [squadra1]\<rparr>"

text \<open>The row of a team on the equator, at longitude 10.\<close>

definition equator_row :: team_row where
  "equator_row =
     \<lparr> tr_id = 7, tr_code = ''SQ-07'', tr_name = ''Squadra 7'', tr_status = disponibile,
       tr_longitude = Some 10, tr_latitude = Some 0, tr_vehicle_id = None,
       tr_active_work_orders = 0 \<rparr>"

definition rome_row :: team_row where
  "rome_row =
     \<lparr> tr_id = 7, tr_code = ''SQ-07'', tr_name = ''Squadra 7'', tr_status = disponibile,
       tr_longitude = Some 12.4, tr_latitude = Some 41.8, tr_vehicle_id = None,
       tr_active_work_orders = 0 \<rparr>"

text \<open>One order and one team.\<close>

definition store1 :: store where
  "store1 = empty_store\<lparr>work_orders := [odl1], teams := [squadra1]\<rparr>"


text \<open>A configuration with a negative distance weight.\<close>

definition store_negative_weight :: store where
  "store_negative_weight = empty_store\<lparr>system_config := [(''scoring_weight_distance'', ''-0.5'')]\<rparr>"

text \<open>A configuration whose weights are zero, not a number, zero again, and absent.\<close>

definition store_zero_weights :: store where
  "store_zero_weights =
     empty_store\<lparr>system_config := [(''scoring_weight_distance'', ''0''),
                                    (''scoring_weight_competence'', ''n/a''),
                                    (''scoring_weight_materials'', ''0.0'')]\<rparr>"

text \<open>
  The order assigned to the team and under way; the same order with high priority; the
  store holding both.
\<close>

definition odl_media :: work_order where
  "odl_media = odl1\<lparr>wo_status := in_viaggio, wo_assigned_team_id := Some 7\<rparr>"

definition odl_alta :: work_order where
  "odl_alta = odl1\<lparr>wo_id := 2, wo_priority := ALTA, wo_status := assegnato,
                    wo_assigned_team_id := Some 7\<rparr>"

definition store_assigned :: store where
  "store_assigned =
     empty_store\<lparr>work_orders := [odl_media, odl_alta],
                 teams := [squadra1\<lparr>t_status := squadra_in_viaggio\<rparr>]\<rparr>"

text \<open>An emergency with the team mobilized for it.\<close>

definition emergenza1 :: emergency where
  "emergenza1 =
     \<lparr> e_id = 1, e_code = ''EMG-202611-001'', e_type = ''rottura_condotta'',
       e_description = ''rottura'', e_severity = ''alta'', e_status = attiva,
       e_activated_at = Some 5000, e_activated_by = Some 3, e_deactivated_at = None,
       e_deactivated_by = None, e_updated_at = None \<rparr>"

definition store_emergency :: store where
  "store_emergency =
     empty_store\<lparr>teams := [squadra1\<lparr>t_status := squadra_in_viaggio\<rparr>],
                 emergencies := [emergenza1],
                 emergency_teams :=
                   [\<lparr> et_emergency_id = 1, et_team_id = 7, et_status = allertata,
                      et_mobilized_at = Some 5000, et_arrived_at = None,
                      et_demobilized_at = None \<rparr>]\<rparr>"

text \<open>An unresolved speeding alert of vehicle 4, one hour old at time 100000.\<close>

definition alert1 :: vehicle_alert where
  "alert1 =
     \<lparr> a_id = 1, a_vehicle_id = 4, a_alert_type = ''velocita_eccessiva'',
       a_description = Velocita_rilevata 95, a_severity = ''medium'', a_is_resolved = False,
       a_created_at = 96400 \<rparr>"

definition store_alert :: store where
  "store_alert = empty_store\<lparr>vehicle_alerts := [alert1]\<rparr>"

text \<open>An external order whose id is that of the stored order, and a calendar.\<close>

definition geocall1 :: geocall_data where
  "geocall1 =
     \<lparr> gd_id = ''G-1001'', gd_priority = ALTA, gd_type = ''sopralluogo'',
       gd_description = ''perdita'', gd_longitude = 12.5, gd_latitude = 41.9,
       gd_address = ''via Appia 1'' \<rparr>"

definition calendar1 :: calendar where
  "calendar1 = \<lparr> cal_now = 2000, cal_year = 2026, cal_month = 11, year_of = (\<lambda>ts. 2026), month_of = (\<lambda>ts. 11) \<rparr>"

definition no_json :: "string \<Rightarrow> jsval" where
  "no_json text = JStr text"

section \<open>Facts about the JavaScript layer\<close>

lemma string_of_nat_0: "string_of_nat 0 = ''0''"
  by code_simp

lemma falsy_iff: "falsy x = (x = None \<or> x = Some 0)"
  by (cases x) (auto simp: falsy_def)

lemma or_default_falsy: "x = None \<or> x = Some 0 \<Longrightarrow> or_default x d = d"
  by (auto simp: or_default_def)

lemma or_default_nonzero: "d \<noteq> 0 \<Longrightarrow> or_default x d \<noteq> 0"
  by (cases x) (auto simp: or_default_def)

lemma or_default_pos: "0 < d \<Longrightarrow> \<not> (\<exists>v. x = Some v \<and> v < 0) \<Longrightarrow> 0 < or_default x d"
  by (cases x) (auto simp: or_default_def)

lemma iterate_first_row:
  "js_iterate (js_first (map (\<lambda>r. JObj (cols r)) rows)) = Inl TypeError"
  by (cases rows) simp_all

lemma parse_minus_half: "parseFloat (Some ''-0.5'') = Some (- 1 / 2)"
  by code_simp

lemma parse_zero: "parseFloat (Some ''0'') = Some 0"
  by code_simp

lemma parse_zero_point: "parseFloat (Some ''0.0'') = Some 0"
  by code_simp

lemma parse_na: "parseFloat (Some ''n/a'') = None"
  by code_simp

section \<open>AnomalyMonitor\<close>

text \<open>
  The check of createAlert binds the first selected row. With no row the read of
  \<open>length\<close> throws and the exception is swallowed; with a row, \<open>length\<close> is
  \<open>undefined\<close> and the comparison is false. So an alert is inserted exactly when a
  recent unresolved one of the vehicle and type exists.
\<close>

lemma createAlert_alerts:
  "vehicle_alerts (createAlert tnow s vehicleId alertType descr severity)
   = (if filter (recent_unresolved tnow vehicleId alertType) (vehicle_alerts s) = []
      then vehicle_alerts s
      else vehicle_alerts s @
           [\<lparr> a_id = next_id (map a_id (vehicle_alerts s)), a_vehicle_id = vehicleId,
              a_alert_type = alertType, a_description = descr, a_severity = severity,
              a_is_resolved = False, a_created_at = tnow \<rparr>])"
  by (cases "filter (recent_unresolved tnow vehicleId alertType) (vehicle_alerts s)")
     (simp_all add: createAlert_def js_gt_def)

text \<open>
  C1, at two inputs. At noon, vehicle 4 reports 95 km/h with no alert stored: no alert is
  created. With an unresolved speeding alert of vehicle 4 that is one hour old, a report
  of 96 km/h creates a second one.
\<close>

theorem checkAnomalies_speeding_inverted:
  "vehicle_alerts (checkAnomalies 100000 12 empty_store 4 95) = []
   \<and> map a_alert_type (vehicle_alerts (checkAnomalies 100000 12 store_alert 4 96))
     = [''velocita_eccessiva'', ''velocita_eccessiva'']
   \<and> map a_created_at (vehicle_alerts (checkAnomalies 100000 12 store_alert 4 96))
     = [96400, 100000]"
  by (simp add: checkAnomalies_def createAlert_alerts empty_store_def store_alert_def alert1_def
                recent_unresolved_def)

section \<open>Import of external orders\<close>

text \<open>
  The count query always yields one row, and \<open>count[0]\<close> of that row is \<open>undefined\<close>:
  the code generator throws at every call.
\<close>

lemma generateWorkOrderCode_throws: "generateWorkOrderCode cal s = Inl TypeError"
  by (simp add: generateWorkOrderCode_def string_of_nat_0)

text \<open>
  The import throws at every input and writes nothing: with no stored row at the read of
  \<open>length\<close>, with a stored row in the code generator, since the comparison
  \<open>existing.length > 0\<close> is false for a row.
\<close>

lemma importWorkOrder_throws:
  "importWorkOrder cal decode s geocallData = (Inl TypeError, s)"
  by (cases "filter (\<lambda>w. wo_geocall_id w = Some (gd_id geocallData)) (work_orders s)")
     (simp_all add: importWorkOrder_def js_gt_def generateWorkOrderCode_throws)

text \<open>
  C2, at an input: the store holds the order with external id G-1001 and local id 1;
  importing the external order G-1001 again does not return the local id, it throws
  TypeError. The store is unchanged.
\<close>

theorem importWorkOrder_existing_id:
  "map (\<lambda>w. (wo_id w, wo_geocall_id w)) (work_orders store1) = [(1, Some (gd_id geocall1))]
   \<and> importWorkOrder calendar1 no_json store1 geocall1 = (Inl TypeError, store1)"
  by (simp add: importWorkOrder_throws store1_def empty_store_def odl1_def geocall1_def)

section \<open>Deactivation of an emergency\<close>

text \<open>
  The loop iterates over the first row of the team query, which is not iterable (or over
  \<open>undefined\<close>): deactivateEmergency throws at every input, after the two updates and
  before any team is restored.
\<close>

lemma deactivateEmergency_throws:
  "fst (deactivateEmergency tnow s emergencyId deactivatedBy) = Inl TypeError
   \<and> teams (snd (deactivateEmergency tnow s emergencyId deactivatedBy)) = teams s"
  by (simp add: deactivateEmergency_def Let_def iterate_first_row)

text \<open>
  C3, at an input: emergency 1 has one EmergencyTeam, team 7, allertata; team 7 is
  in_viaggio. Deactivation marks the EmergencyTeam smobilitata at the current time, then
  throws TypeError; team 7 stays in_viaggio.
\<close>

theorem deactivateEmergency_teams_not_restored:
  "fst (deactivateEmergency 9000 store_emergency 1 (Some 3)) = Inl TypeError
   \<and> map (\<lambda>t. (t_id t, t_status t))
         (teams (snd (deactivateEmergency 9000 store_emergency 1 (Some 3))))
     = [(7, squadra_in_viaggio)]
   \<and> map (\<lambda>et. (et_team_id et, et_status et, et_demobilized_at et))
         (emergency_teams (snd (deactivateEmergency 9000 store_emergency 1 (Some 3))))
     = [(7, smobilitata, Some 9000)]"
  by (simp add: deactivateEmergency_def store_emergency_def empty_store_def squadra1_def Let_def)

section \<open>Status changes\<close>

lemma update_order_status_id [simp]: "wo_id (update_order_status tnow st w) = wo_id w"
  by (simp add: update_order_status_def set_timestamp_def split: option.splits)

lemma update_order_status_team [simp]:
  "wo_assigned_team_id (update_order_status tnow st w) = wo_assigned_team_id w"
  by (simp add: update_order_status_def set_timestamp_def split: option.splits)

lemma update_order_status_completato:
  "wo_status (update_order_status tnow completato w) = completato
   \<and> wo_work_completed_at (update_order_status tnow completato w) = Some tnow"
  by (simp add: update_order_status_def set_timestamp_def)

lemma filter_updated_orders:
  "filter (\<lambda>w. wo_id w = i) (map (\<lambda>w. if wo_id w = i then update_order_status tnow st w else w) ws)
   = map (update_order_status tnow st) (filter (\<lambda>w. wo_id w = i) ws)"
  by (induction ws) simp_all

lemma map_id_updated_orders:
  "map wo_id (map (\<lambda>w. if wo_id w = i then update_order_status tnow st w else w) ws) = map wo_id ws"
  by (induction ws) simp_all

text \<open>
  C4: when the order exists, whatever its current status, updateStatus to completato
  returns true; every row of that id has status completato and work_completed_at set to
  the current time; every team whose id is the order's assigned team is disponibile. No
  order and no team is added or removed.
\<close>

theorem updateStatus_completato:
  assumes "filter (\<lambda>w. wo_id w = workOrderId) (work_orders s) = current # rest"
  shows "fst (updateStatus tnow s workOrderId completato userId notes) = Inr True
    \<and> map wo_id (work_orders (snd (updateStatus tnow s workOrderId completato userId notes)))
      = map wo_id (work_orders s)
    \<and> list_all (\<lambda>w. wo_status w = completato \<and> wo_work_completed_at w = Some tnow)
        (filter (\<lambda>w. wo_id w = workOrderId)
           (work_orders (snd (updateStatus tnow s workOrderId completato userId notes))))
    \<and> map t_id (teams (snd (updateStatus tnow s workOrderId completato userId notes)))
      = map t_id (teams s)
    \<and> list_all (\<lambda>t. t_status t = disponibile)
        (filter (\<lambda>t. Some (t_id t) = wo_assigned_team_id current)
           (teams (snd (updateStatus tnow s workOrderId completato userId notes))))"
proof -
  let ?ws = "map (\<lambda>w. if wo_id w = workOrderId then update_order_status tnow completato w else w)
                 (work_orders s)"
  let ?s2 = "s\<lparr>work_orders := ?ws,
               work_order_status_history :=
                 work_order_status_history s @
                 [\<lparr> h_work_order_id = workOrderId, h_old_status = wo_status current,
                    h_new_status = completato, h_changed_by = userId, h_notes = notes \<rparr>]\<rparr>"
  have res: "updateStatus tnow s workOrderId completato userId notes
             = (Inr True, updateTeamStatus tnow ?s2 workOrderId disponibile)"
    using assms by (simp add: updateStatus_def Let_def)
  have sub: "assigned_team_of ?s2 workOrderId = wo_assigned_team_id current"
    using assms by (simp add: assigned_team_of_def filter_updated_orders)
  have ws: "work_orders (updateTeamStatus tnow ?s2 workOrderId disponibile) = ?ws"
    by (simp add: updateTeamStatus_def)
  have ts: "teams (updateTeamStatus tnow ?s2 workOrderId disponibile)
            = map (\<lambda>t. if Some (t_id t) = wo_assigned_team_id current
                        then t\<lparr>t_status := disponibile, t_updated_at := Some tnow\<rparr> else t)
                  (teams s)"
    unfolding updateTeamStatus_def sub by simp
  have a: "map wo_id ?ws = map wo_id (work_orders s)"
    by (rule map_id_updated_orders)
  have b: "list_all (\<lambda>w. wo_status w = completato \<and> wo_work_completed_at w = Some tnow)
             (filter (\<lambda>w. wo_id w = workOrderId) ?ws)"
    by (simp add: filter_updated_orders list_all_iff update_order_status_completato)
  have c: "map t_id (map (\<lambda>t. if Some (t_id t) = wo_assigned_team_id current
                        then t\<lparr>t_status := disponibile, t_updated_at := Some tnow\<rparr> else t)
                  (teams s)) = map t_id (teams s)"
    by (induction "teams s") (simp_all add: comp_def)
  have d: "list_all (\<lambda>t. t_status t = disponibile)
             (filter (\<lambda>t. Some (t_id t) = wo_assigned_team_id current)
                (map (\<lambda>t. if Some (t_id t) = wo_assigned_team_id current
                        then t\<lparr>t_status := disponibile, t_updated_at := Some tnow\<rparr> else t)
                  (teams s)))"
    by (auto simp: list_all_iff)
  show ?thesis
    unfolding res fst_conv snd_conv ws ts using a b c d by simp
qed

text \<open>
  The order under way, assigned to team 7, is completed at time 7000.
\<close>

theorem updateStatus_completato_witness:
  "filter (\<lambda>w. wo_id w = 1) (work_orders store_assigned) = [odl_media]
   \<and> wo_assigned_team_id odl_media = Some 7
   \<and> fst (updateStatus 7000 store_assigned 1 completato (Some 3) None) = Inr True
   \<and> list_all (\<lambda>w. wo_status w = completato \<and> wo_work_completed_at w = Some 7000)
        (filter (\<lambda>w. wo_id w = 1)
           (work_orders (snd (updateStatus 7000 store_assigned 1 completato (Some 3) None))))
   \<and> list_all (\<lambda>t. t_status t = disponibile)
        (filter (\<lambda>t. Some (t_id t) = wo_assigned_team_id odl_media)
           (teams (snd (updateStatus 7000 store_assigned 1 completato (Some 3) None))))"
proof -
  have h: "filter (\<lambda>w. wo_id w = 1) (work_orders store_assigned) = [odl_media]"
    by (simp add: store_assigned_def empty_store_def odl_media_def odl_alta_def odl1_def)
  have t: "wo_assigned_team_id odl_media = Some 7"
    by (simp add: odl_media_def)
  from updateStatus_completato [OF h, of 7000 "Some 3" None] h t show ?thesis
    by blast
qed

section \<open>Mobilization\<close>

text \<open>
  What the three statements mean where the cast is accepted: the rows of work_orders stay
  in place, an order of the team with status assegnato or in_viaggio and a priority
  other than ALTA becomes sospeso with the note appended, an order of priority ALTA is
  unchanged.
\<close>

lemma mobilizeTeam_on_postgres:
  assumes "i < length (work_orders s)"
  shows "fst (mobilizeTeam_on postgres tnow s emergencyId teamId mobilizedBy) = Inr ()
    \<and> length (work_orders (snd (mobilizeTeam_on postgres tnow s emergencyId teamId mobilizedBy)))
      = length (work_orders s)
    \<and> (wo_assigned_team_id (work_orders s ! i) = Some teamId
        \<and> (wo_status (work_orders s ! i) = assegnato \<or> wo_status (work_orders s ! i) = in_viaggio)
        \<and> wo_priority (work_orders s ! i) \<noteq> ALTA
       \<longrightarrow> work_orders (snd (mobilizeTeam_on postgres tnow s emergencyId teamId mobilizedBy)) ! i
           = (work_orders s ! i)
               \<lparr>wo_status := sospeso,
                wo_notes := Some ((case wo_notes (work_orders s ! i) of None \<Rightarrow> [] | Some n \<Rightarrow> n)
                                  @ [CHR 0x0A] @ ''Sospeso per emergenza ''
                                  @ string_of_nat emergencyId)\<rparr>)
    \<and> (wo_priority (work_orders s ! i) = ALTA
       \<longrightarrow> work_orders (snd (mobilizeTeam_on postgres tnow s emergencyId teamId mobilizedBy)) ! i
           = work_orders s ! i)"
  using assms
  by (simp add: mobilizeTeam_on_def accepts_cast_def Let_def suspended_by_def suspension_note_def)

text \<open>
  On the configured connection mobilizeTeam throws at every input, with the EmergencyTeam
  inserted, the team in_viaggio and no work order changed.
\<close>

lemma mobilizeTeam_throws:
  "fst (mobilizeTeam tnow s emergencyId teamId mobilizedBy) = Inl QueryError
   \<and> work_orders (snd (mobilizeTeam tnow s emergencyId teamId mobilizedBy)) = work_orders s"
  by (simp add: mobilizeTeam_def mobilizeTeam_on_def database_dialect_def accepts_cast_def Let_def)

text \<open>
  C5, at an input: team 7 has an order of priority MEDIA under way and an assigned order
  of priority ALTA, and is mobilized for emergency 1. The call throws; the EmergencyTeam
  row is there and the team is in_viaggio, but the order of priority MEDIA is still
  in_viaggio with no note, not sospeso. The order of priority ALTA is unchanged.
\<close>

theorem mobilizeTeam_orders_not_suspended:
  "map (\<lambda>w. (wo_id w, wo_priority w, wo_status w, wo_assigned_team_id w, wo_notes w))
       (work_orders store_assigned)
     = [(1, MEDIA, in_viaggio, Some 7, None), (2, ALTA, assegnato, Some 7, None)]
   \<and> fst (mobilizeTeam 6000 store_assigned 1 7 (Some 3)) = Inl QueryError
   \<and> map (\<lambda>w. (wo_id w, wo_priority w, wo_status w, wo_assigned_team_id w, wo_notes w))
         (work_orders (snd (mobilizeTeam 6000 store_assigned 1 7 (Some 3))))
     = [(1, MEDIA, in_viaggio, Some 7, None), (2, ALTA, assegnato, Some 7, None)]
   \<and> map (\<lambda>t. (t_id t, t_status t)) (teams (snd (mobilizeTeam 6000 store_assigned 1 7 (Some 3))))
     = [(7, squadra_in_viaggio)]
   \<and> map (\<lambda>et. (et_emergency_id et, et_team_id et, et_status et))
         (emergency_teams (snd (mobilizeTeam 6000 store_assigned 1 7 (Some 3))))
     = [(1, 7, allertata)]"
  by (simp add: mobilizeTeam_def mobilizeTeam_on_def database_dialect_def accepts_cast_def Let_def
                store_assigned_def empty_store_def odl_media_def odl_alta_def odl1_def squadra1_def)

section \<open>Scoring\<close>

text \<open>
  C6, amended: with the team's latitude and longitude and the order's coordinates all
  present and different from 0, the distance score is max(0, 100 - d), d the distance in
  kilometres (100 at d = 0, 50 at d = 50, 0 from d = 100 on). When a coordinate of the
  team or of the order is missing or 0, the score is 0; the function is total, so no
  error is raised.
\<close>

theorem calculateDistanceScore_spec:
  "(tr_latitude team = Some tlat \<and> tr_longitude team = Some tlon \<and> tlat \<noteq> 0 \<and> tlon \<noteq> 0
      \<and> wo_location workOrder \<noteq> None
      \<and> filter (\<lambda>w. wo_id w = wo_id workOrder) (work_orders s) = odl # rest
      \<and> wo_location odl = Some (lon, lat) \<and> lon \<noteq> 0 \<and> lat \<noteq> 0
    \<longrightarrow> calculateDistanceScore getDistance s workOrder team
          = max 0 (100 - getDistance (tlat, tlon) (lat, lon) / 1000)
        \<and> (getDistance (tlat, tlon) (lat, lon) / 1000 = 0
             \<longrightarrow> calculateDistanceScore getDistance s workOrder team = 100)
        \<and> (getDistance (tlat, tlon) (lat, lon) / 1000 = 50
             \<longrightarrow> calculateDistanceScore getDistance s workOrder team = 50)
        \<and> (100 \<le> getDistance (tlat, tlon) (lat, lon) / 1000
             \<longrightarrow> calculateDistanceScore getDistance s workOrder team = 0))
   \<and> (tr_latitude team = None \<or> tr_latitude team = Some 0
       \<or> tr_longitude team = None \<or> tr_longitude team = Some 0
       \<or> wo_location workOrder = None
       \<or> filter (\<lambda>w. wo_id w = wo_id workOrder) (work_orders s) = []
       \<or> (\<exists>row others. filter (\<lambda>w. wo_id w = wo_id workOrder) (work_orders s) = row # others
            \<and> (wo_location row = None
                \<or> (\<exists>x y. wo_location row = Some (x, y) \<and> (x = 0 \<or> y = 0))))
     \<longrightarrow> calculateDistanceScore getDistance s workOrder team = 0)"
  by (auto simp: calculateDistanceScore_def falsy_def)

text \<open>
  Along a meridian the great-circle distance is the arc: a point and the point
  \<open>m\<close> metres north of it are \<open>m\<close> metres apart.
\<close>

lemma great_circle_meridian:
  assumes "0 \<le> m" and "m \<le> 12000000"
  shows "great_circle (lat, lon) (lat + meridian_degrees m, lon) = m"
proof -
  let ?a = "lat * pi / 180"
  let ?t = "m / 6378137"
  have b: "(lat + meridian_degrees m) * pi / 180 = ?a + ?t"
    by (simp add: meridian_degrees_def field_simps)
  have "?t \<le> 2"
    using assms by simp
  then have up: "?t \<le> pi"
    using pi_ge_two by linarith
  have lo: "0 \<le> ?t"
    using assms by simp
  have "sin ?a * sin (?a + ?t) + cos ?a * cos (?a + ?t) = cos ((?a + ?t) - ?a)"
    by (simp only: cos_diff) (simp add: mult.commute)
  also have "\<dots> = cos ?t"
    by simp
  finally have c: "sin ?a * sin (?a + ?t) + cos ?a * cos (?a + ?t) = cos ?t" .
  have "great_circle (lat, lon) (lat + meridian_degrees m, lon)
        = 6378137 * arccos (sin ?a * sin (?a + ?t) + cos ?a * cos (?a + ?t))"
    unfolding great_circle_def fst_conv snd_conv b by simp
  also have "\<dots> = 6378137 * ?t"
    unfolding c using lo up by (simp add: arccos_cos)
  also have "\<dots> = m"
    by simp
  finally show ?thesis .
qed

lemma meridian_degrees_pos: "0 < m \<Longrightarrow> 0 < meridian_degrees m"
  by (simp add: meridian_degrees_def)

lemma great_circle_equator_50: "great_circle (0, 10) (meridian_degrees 50000, 10) = 50000"
  using great_circle_meridian [of 50000 0 10] by simp

lemma great_circle_equator_10: "great_circle (0, 10) (meridian_degrees 10000, 10) = 10000"
  using great_circle_meridian [of 10000 0 10] by simp

lemma great_circle_rome_50:
  "great_circle (41.8, 12.4) (41.8 + meridian_degrees 50000, 12.4) = 50000"
  using great_circle_meridian [of 50000 "41.8" "12.4"] by simp

lemma great_circle_rome_10:
  "great_circle (41.8, 12.4) (41.8 + meridian_degrees 10000, 12.4) = 10000"
  using great_circle_meridian [of 10000 "41.8" "12.4"] by simp

text \<open>
  The claim as stated fails for a team on the equator (latitude 0, longitude 10) and an
  order 50 km north of it on the same meridian: all four coordinates are present, the
  great-circle distance is 50 km, so the claim gives 50; the score is 0.
\<close>

theorem calculateDistanceScore_equator_counterexample:
  "tr_latitude equator_row = Some 0 \<and> tr_longitude equator_row = Some 10
   \<and> wo_location (odl_at 10 (meridian_degrees 50000)) = Some (10, meridian_degrees 50000)
   \<and> 0 < meridian_degrees 50000
   \<and> filter (\<lambda>w. wo_id w = wo_id (odl_at 10 (meridian_degrees 50000)))
        (work_orders (store_equator 50000))
     = [odl_at 10 (meridian_degrees 50000)]
   \<and> great_circle (0, 10) (meridian_degrees 50000, 10) / 1000 = 50
   \<and> max 0 (100 - great_circle (0, 10) (meridian_degrees 50000, 10) / 1000) = 50
   \<and> calculateDistanceScore great_circle (store_equator 50000)
        (odl_at 10 (meridian_degrees 50000)) equator_row = 0"
  by (simp add: great_circle_equator_50 meridian_degrees_pos calculateDistanceScore_def falsy_def
                equator_row_def odl_at_def store_equator_def empty_store_def)

text \<open>
  The team in Rome and an order 50 km north of it on the same meridian: the score is 50.
  For the team on the equator the score is 0.
\<close>

theorem calculateDistanceScore_spec_witness:
  "tr_latitude rome_row = Some 41.8 \<and> tr_longitude rome_row = Some 12.4
   \<and> filter (\<lambda>w. wo_id w = wo_id (odl_at 12.4 (41.8 + meridian_degrees 50000)))
        (work_orders (store_rome 50000))
     = [odl_at 12.4 (41.8 + meridian_degrees 50000)]
   \<and> wo_location (odl_at 12.4 (41.8 + meridian_degrees 50000))
     = Some (12.4, 41.8 + meridian_degrees 50000)
   \<and> 0 < 41.8 + meridian_degrees 50000
   \<and> great_circle (41.8, 12.4) (41.8 + meridian_degrees 50000, 12.4) / 1000 = 50
   \<and> calculateDistanceScore great_circle (store_rome 50000)
        (odl_at 12.4 (41.8 + meridian_degrees 50000)) rome_row = 50
   \<and> calculateDistanceScore great_circle (store_equator 50000)
        (odl_at 10 (meridian_degrees 50000)) equator_row = 0"
proof -
  have h: "tr_latitude rome_row = Some 41.8 \<and> tr_longitude rome_row = Some 12.4"
    by (simp add: rome_row_def)
  have f: "filter (\<lambda>w. wo_id w = wo_id (odl_at 12.4 (41.8 + meridian_degrees 50000)))
             (work_orders (store_rome 50000))
           = [odl_at 12.4 (41.8 + meridian_degrees 50000)]"
    by (simp add: store_rome_def empty_store_def)
  have l: "wo_location (odl_at 12.4 (41.8 + meridian_degrees 50000))
           = Some (12.4, 41.8 + meridian_degrees 50000)"
    by (simp add: odl_at_def)
  have p: "0 < 41.8 + meridian_degrees 50000"
    using meridian_degrees_pos [of 50000] by simp
  have d: "great_circle (41.8, 12.4) (41.8 + meridian_degrees 50000, 12.4) / 1000 = 50"
    using great_circle_rome_50 by simp
  have e: "tr_latitude equator_row = Some 0"
    by (simp add: equator_row_def)
  have n: "(41.8::real) \<noteq> 0 \<and> (12.4::real) \<noteq> 0 \<and> 41.8 + meridian_degrees 50000 \<noteq> 0
           \<and> wo_location (odl_at 12.4 (41.8 + meridian_degrees 50000)) \<noteq> None"
    using p l by simp
  have "calculateDistanceScore great_circle (store_rome 50000)
          (odl_at 12.4 (41.8 + meridian_degrees 50000)) rome_row
        = max 0 (100 - great_circle (41.8, 12.4) (41.8 + meridian_degrees 50000, 12.4) / 1000)"
    using calculateDistanceScore_spec
            [where team = rome_row and tlat = "41.8" and tlon = "12.4"
               and workOrder = "odl_at 12.4 (41.8 + meridian_degrees 50000)"
               and s = "store_rome 50000" and odl = "odl_at 12.4 (41.8 + meridian_degrees 50000)"
               and rest = "[]" and lon = "12.4" and lat = "41.8 + meridian_degrees 50000"
               and getDistance = great_circle] h f l n
    by blast
  then have "calculateDistanceScore great_circle (store_rome 50000)
          (odl_at 12.4 (41.8 + meridian_degrees 50000)) rome_row = 50"
    using d by simp
  moreover have "calculateDistanceScore great_circle (store_equator 50000)
          (odl_at 10 (meridian_degrees 50000)) equator_row = 0"
    using calculateDistanceScore_spec
            [where team = equator_row and workOrder = "odl_at 10 (meridian_degrees 50000)"
               and s = "store_equator 50000" and getDistance = great_circle] e
    by simp
  ultimately show ?thesis using h f l p d by simp
qed

lemma total_score_weighted:
  "total_score (score_team getDistance curdate s weights workOrder team)
   = distance (scores (score_team getDistance curdate s weights workOrder team)) * distance weights
     + competence (scores (score_team getDistance curdate s weights workOrder team)) * competence weights
     + materials (scores (score_team getDistance curdate s weights workOrder team)) * materials weights
     + workload (scores (score_team getDistance curdate s weights workOrder team)) * workload weights"
  by (simp add: score_team_def totalScore_def)

lemma getScoringWeights_absent:
  "config_text s ''scoring_weight_distance'' = None
   \<Longrightarrow> config_text s ''scoring_weight_competence'' = None
   \<Longrightarrow> config_text s ''scoring_weight_materials'' = None
   \<Longrightarrow> config_text s ''scoring_weight_workload'' = None
   \<Longrightarrow> getScoringWeights s
       = \<lparr> distance = 0.40, competence = 0.25, materials = 0.20, workload = 0.15 \<rparr>"
  by (simp add: getScoringWeights_def parseFloat_def or_default_def)

lemma example_scores:
  assumes "getRequiredCompetences (wo_type workOrder) = []"
      and "getRequiredMaterials (wo_type workOrder) = []"
      and "tr_latitude team = Some tlat" "tr_longitude team = Some tlon" "tlat \<noteq> 0" "tlon \<noteq> 0"
      and "wo_location workOrder \<noteq> None"
      and "filter (\<lambda>w. wo_id w = wo_id workOrder) (work_orders s) = odl # rest"
      and "wo_location odl = Some (lon, lat)" "lon \<noteq> 0" "lat \<noteq> 0"
      and "getDistance (tlat, tlon) (lat, lon) = 10000"
      and "tr_active_work_orders team = 0"
  shows "team_scores getDistance curdate s workOrder team
         = \<lparr> distance = 90, competence = 100, materials = 100, workload = 100 \<rparr>"
  using assms
  by (simp add: team_scores_def calculateDistanceScore_def falsy_def calculateCompetenceScore_def
                calculateMaterialsScore_def calculateWorkloadScore_def)

lemma result_weighted:
  assumes "calculateOptimalAssignment getDistance curdate s workOrderId = Inr res"
  shows "list_all (\<lambda>e. total_score e
                       = distance (scores e) * distance (getScoringWeights s)
                         + competence (scores e) * competence (getScoringWeights s)
                         + materials (scores e) * materials (getScoringWeights s)
                         + workload (scores e) * workload (getScoringWeights s)) res"
  using assms
  by (auto simp: calculateOptimalAssignment_def list_all_iff total_score_weighted
           split: list.splits if_splits)





lemma team_id_score_team [simp]:
  "team_id (score_team gd cd s w wo t) = tr_id t"
  by (simp add: score_team_def)



lemma candidates_store1: "candidate_teams store1 = [rome_row]"
  by (simp add: candidate_teams_def team_rows_def vehicles_of_def eligible_def store1_def
                empty_store_def squadra1_def rome_row_def active_work_orders_of_def odl1_def)


lemma no_requirements: "getRequiredCompetences ''sopralluogo'' = [] \<and> getRequiredMaterials ''sopralluogo'' = []"
  by (simp add: getRequiredCompetences_def getRequiredMaterials_def competenceMap_def materialsMap_def)


lemma candidates_equator: "candidate_teams (store_equator m) = [equator_row]"
  by (simp add: candidate_teams_def team_rows_def vehicles_of_def eligible_def store_equator_def
                empty_store_def squadra_equatore_def squadra1_def equator_row_def
                active_work_orders_of_def odl_at_def odl1_def)

lemma candidates_rome: "candidate_teams (store_rome m) = [rome_row]"
  by (simp add: candidate_teams_def team_rows_def vehicles_of_def eligible_def store_rome_def
                empty_store_def squadra1_def rome_row_def active_work_orders_of_def odl_at_def
                odl1_def)

lemma order_equator:
  "filter (\<lambda>w. wo_id w = 1) (work_orders (store_equator m)) = [odl_at 10 (meridian_degrees m)]"
  by (simp add: store_equator_def empty_store_def odl_at_def odl1_def)

lemma order_rome:
  "filter (\<lambda>w. wo_id w = 1) (work_orders (store_rome m))
   = [odl_at 12.4 (41.8 + meridian_degrees m)]"
  by (simp add: store_rome_def empty_store_def odl_at_def odl1_def)

lemma assignment_equator:
  "calculateOptimalAssignment getDistance curdate (store_equator m) 1
   = Inr [score_team getDistance curdate (store_equator m) (getScoringWeights (store_equator m))
            (odl_at 10 (meridian_degrees m)) equator_row]"
  unfolding calculateOptimalAssignment_def order_equator candidates_equator by simp

lemma assignment_rome:
  "calculateOptimalAssignment getDistance curdate (store_rome m) 1
   = Inr [score_team getDistance curdate (store_rome m) (getScoringWeights (store_rome m))
            (odl_at 12.4 (41.8 + meridian_degrees m)) rome_row]"
  unfolding calculateOptimalAssignment_def order_rome candidates_rome by simp

text \<open>
  C9, amended: calculateOptimalAssignment returns, for every row of the team query, an
  entry of that team whose estimated arrival time is 15 minutes when the team's latitude
  and longitude are both present and different from 0, whatever the distance function
  answers, and null when one of them is missing or 0.
\<close>

theorem calculateOptimalAssignment_eta:
  "(calculateOptimalAssignment getDistance curdate s workOrderId = Inr res
    \<longrightarrow> mset (map (\<lambda>e. (team_id e, estimated_arrival_time e)) res)
        = mset (map (\<lambda>row. (tr_id row,
                               if tr_latitude row = None \<or> tr_latitude row = Some 0
                                  \<or> tr_longitude row = None \<or> tr_longitude row = Some 0
                               then None else Some 15))
                    (candidate_teams s)))
   \<and> estimated_arrival_time (score_team getDistance curdate s weights workOrder team)
     = (if tr_latitude team = None \<or> tr_latitude team = Some 0
           \<or> tr_longitude team = None \<or> tr_longitude team = Some 0
        then None else Some 15)"
proof -
  have eta: "\<And>w wo row. estimated_arrival_time (score_team getDistance curdate s w wo row)
      = (if tr_latitude row = None \<or> tr_latitude row = Some 0
            \<or> tr_longitude row = None \<or> tr_longitude row = Some 0
         then None else Some 15)"
    by (simp add: score_team_def calculateETA_def falsy_iff)
  have "calculateOptimalAssignment getDistance curdate s workOrderId = Inr res
    \<Longrightarrow> mset (map (\<lambda>e. (team_id e, estimated_arrival_time e)) res)
        = mset (map (\<lambda>row. (tr_id row,
                               if tr_latitude row = None \<or> tr_latitude row = Some 0
                                  \<or> tr_longitude row = None \<or> tr_longitude row = Some 0
                               then None else Some 15))
                    (candidate_teams s))"
    by (auto simp: calculateOptimalAssignment_def eta multiset.map_comp comp_def
             split: list.splits if_splits)
  with eta show ?thesis by blast
qed

text \<open>
  The claim as stated fails for the team on the equator, whose coordinates are known
  (latitude 0, longitude 10): the entry that calculateOptimalAssignment returns for it
  has a null estimated arrival time.
\<close>

theorem calculateOptimalAssignment_eta_equator_counterexample:
  "map (\<lambda>t. (t_id t, t_current_location t)) (teams (store_equator 10000)) = [(7, Some (10, 0))]
   \<and> map_sum id (map (\<lambda>e. (team_id e, estimated_arrival_time e)))
        (calculateOptimalAssignment great_circle 0 (store_equator 10000) 1)
     = Inr [(7, None)]"
proof -
  have t: "map (\<lambda>t. (t_id t, t_current_location t)) (teams (store_equator 10000))
           = [(7, Some (10, 0))]"
    by (simp add: store_equator_def empty_store_def squadra_equatore_def squadra1_def)
  have e: "map_sum id (map (\<lambda>e. (team_id e, estimated_arrival_time e)))
        (calculateOptimalAssignment great_circle 0 (store_equator 10000) 1)
     = Inr [(7, None)]"
    unfolding assignment_equator
    by (simp add: score_team_def calculateETA_def falsy_def equator_row_def)
  from t e show ?thesis by blast
qed

text \<open>
  The team in Rome gets 15 minutes for an order 10 km away and for an order 50 km away.
\<close>

theorem calculateOptimalAssignment_eta_witness:
  "candidate_teams (store_rome 10000) = [rome_row] \<and> candidate_teams (store_rome 50000) = [rome_row]
   \<and> tr_latitude rome_row = Some 41.8 \<and> tr_longitude rome_row = Some 12.4
   \<and> great_circle (41.8, 12.4) (41.8 + meridian_degrees 10000, 12.4) = 10000
   \<and> great_circle (41.8, 12.4) (41.8 + meridian_degrees 50000, 12.4) = 50000
   \<and> map_sum id (map (\<lambda>e. (team_id e, estimated_arrival_time e)))
        (calculateOptimalAssignment great_circle 0 (store_rome 10000) 1)
     = Inr [(7, Some 15)]
   \<and> map_sum id (map (\<lambda>e. (team_id e, estimated_arrival_time e)))
        (calculateOptimalAssignment great_circle 0 (store_rome 50000) 1)
     = Inr [(7, Some 15)]"
proof -
  have r: "tr_id rome_row = 7 \<and> tr_latitude rome_row = Some 41.8 \<and> tr_longitude rome_row = Some 12.4"
    by (simp add: rome_row_def)
  have a: "map (\<lambda>e. (team_id e, estimated_arrival_time e))
             [score_team great_circle 0 (store_rome m) (getScoringWeights (store_rome m))
                (odl_at 12.4 (41.8 + meridian_degrees m)) rome_row]
           = [(7, Some 15)]" for m
    using calculateOptimalAssignment_eta
            [of great_circle 0 "store_rome m" 1
                "[score_team great_circle 0 (store_rome m) (getScoringWeights (store_rome m))
                    (odl_at 12.4 (41.8 + meridian_degrees m)) rome_row]"]
          assignment_rome [of great_circle 0 m] r
    by (simp add: candidates_rome)
  have b: "map_sum id (map (\<lambda>e. (team_id e, estimated_arrival_time e)))
             (calculateOptimalAssignment great_circle 0 (store_rome m) 1)
           = Inr [(7, Some 15)]" for m
    unfolding assignment_rome using a [of m] by simp
  from candidates_rome [of 10000] candidates_rome [of 50000] r great_circle_rome_10
       great_circle_rome_50 b [of 10000] b [of 50000]
  show ?thesis by blast
qed

text \<open>
  C7: for an order whose kind requires no competences and no materials, a team with
  coordinates at 10 km from it and no active order, under the weights 0.40, 0.25, 0.20,
  0.15, the sub-scores are 90, 100, 100, 100 and the total is 96. Those are the weights
  when none is configured. The total of a scored team, and of every entry that
  calculateOptimalAssignment returns, is the weighted sum of its four sub-scores.
\<close>

theorem aggregate_example:
  "(getRequiredCompetences (wo_type workOrder) = [] \<and> getRequiredMaterials (wo_type workOrder) = []
      \<and> tr_latitude team = Some tlat \<and> tr_longitude team = Some tlon \<and> tlat \<noteq> 0 \<and> tlon \<noteq> 0
      \<and> wo_location workOrder \<noteq> None
      \<and> filter (\<lambda>w. wo_id w = wo_id workOrder) (work_orders s) = odl # rest
      \<and> wo_location odl = Some (lon, lat) \<and> lon \<noteq> 0 \<and> lat \<noteq> 0
      \<and> getDistance (tlat, tlon) (lat, lon) = 10000
      \<and> tr_active_work_orders team = 0
      \<and> weights = \<lparr> distance = 0.40, competence = 0.25, materials = 0.20, workload = 0.15 \<rparr>
    \<longrightarrow> scores (score_team getDistance curdate s weights workOrder team)
          = \<lparr> distance = 90, competence = 100, materials = 100, workload = 100 \<rparr>
        \<and> total_score (score_team getDistance curdate s weights workOrder team) = 96)
   \<and> (config_text s ''scoring_weight_distance'' = None
      \<and> config_text s ''scoring_weight_competence'' = None
      \<and> config_text s ''scoring_weight_materials'' = None
      \<and> config_text s ''scoring_weight_workload'' = None
    \<longrightarrow> getScoringWeights s
        = \<lparr> distance = 0.40, competence = 0.25, materials = 0.20, workload = 0.15 \<rparr>)
   \<and> total_score (score_team getDistance curdate s weights workOrder team)
     = distance (scores (score_team getDistance curdate s weights workOrder team)) * distance weights
       + competence (scores (score_team getDistance curdate s weights workOrder team)) * competence weights
       + materials (scores (score_team getDistance curdate s weights workOrder team)) * materials weights
       + workload (scores (score_team getDistance curdate s weights workOrder team)) * workload weights
   \<and> (calculateOptimalAssignment getDistance curdate s workOrderId = Inr res
    \<longrightarrow> list_all (\<lambda>e. total_score e
                       = distance (scores e) * distance (getScoringWeights s)
                         + competence (scores e) * competence (getScoringWeights s)
                         + materials (scores e) * materials (getScoringWeights s)
                         + workload (scores e) * workload (getScoringWeights s)) res)"
proof (intro conjI impI)
  assume h: "getRequiredCompetences (wo_type workOrder) = [] \<and> getRequiredMaterials (wo_type workOrder) = []
      \<and> tr_latitude team = Some tlat \<and> tr_longitude team = Some tlon \<and> tlat \<noteq> 0 \<and> tlon \<noteq> 0
      \<and> wo_location workOrder \<noteq> None
      \<and> filter (\<lambda>w. wo_id w = wo_id workOrder) (work_orders s) = odl # rest
      \<and> wo_location odl = Some (lon, lat) \<and> lon \<noteq> 0 \<and> lat \<noteq> 0
      \<and> getDistance (tlat, tlon) (lat, lon) = 10000
      \<and> tr_active_work_orders team = 0
      \<and> weights = \<lparr> distance = 0.40, competence = 0.25, materials = 0.20, workload = 0.15 \<rparr>"
  then have sc: "team_scores getDistance curdate s workOrder team
         = \<lparr> distance = 90, competence = 100, materials = 100, workload = 100 \<rparr>"
    by (intro example_scores [where tlat = tlat and tlon = tlon and odl = odl and rest = rest
                               and lon = lon and lat = lat]) simp_all
  show "scores (score_team getDistance curdate s weights workOrder team)
          = \<lparr> distance = 90, competence = 100, materials = 100, workload = 100 \<rparr>"
    by (simp add: score_team_def sc)
  show "total_score (score_team getDistance curdate s weights workOrder team) = 96"
    using h by (simp add: score_team_def sc totalScore_def)
next
  assume "config_text s ''scoring_weight_distance'' = None
      \<and> config_text s ''scoring_weight_competence'' = None
      \<and> config_text s ''scoring_weight_materials'' = None
      \<and> config_text s ''scoring_weight_workload'' = None"
  then show "getScoringWeights s
        = \<lparr> distance = 0.40, competence = 0.25, materials = 0.20, workload = 0.15 \<rparr>"
    by (simp add: getScoringWeights_absent)
next
  show "total_score (score_team getDistance curdate s weights workOrder team)
     = distance (scores (score_team getDistance curdate s weights workOrder team)) * distance weights
       + competence (scores (score_team getDistance curdate s weights workOrder team)) * competence weights
       + materials (scores (score_team getDistance curdate s weights workOrder team)) * materials weights
       + workload (scores (score_team getDistance curdate s weights workOrder team)) * workload weights"
    by (rule total_score_weighted)
next
  assume "calculateOptimalAssignment getDistance curdate s workOrderId = Inr res"
  then show "list_all (\<lambda>e. total_score e
                       = distance (scores e) * distance (getScoringWeights s)
                         + competence (scores e) * competence (getScoringWeights s)
                         + materials (scores e) * materials (getScoringWeights s)
                         + workload (scores e) * workload (getScoringWeights s)) res"
    by (rule result_weighted)
qed

text \<open>
  The claim as stated fails for the team on the equator and an order 10 km north of it
  that requires no competences and no materials: with no active order and the default
  weights the sub-scores are 0, 100, 100, 100 and the total is 60.
\<close>

theorem aggregate_example_equator_counterexample:
  "getRequiredCompetences (wo_type (odl_at 10 (meridian_degrees 10000))) = []
   \<and> getRequiredMaterials (wo_type (odl_at 10 (meridian_degrees 10000))) = []
   \<and> map (\<lambda>t. (t_id t, t_current_location t)) (teams (store_equator 10000)) = [(7, Some (10, 0))]
   \<and> map wo_location (work_orders (store_equator 10000)) = [Some (10, meridian_degrees 10000)]
   \<and> great_circle (0, 10) (meridian_degrees 10000, 10) = 10000
   \<and> candidate_teams (store_equator 10000) = [equator_row]
   \<and> tr_active_work_orders equator_row = 0
   \<and> getScoringWeights (store_equator 10000)
     = \<lparr> distance = 0.40, competence = 0.25, materials = 0.20, workload = 0.15 \<rparr>
   \<and> map_sum id (map (\<lambda>e. (team_id e, scores e, total_score e)))
        (calculateOptimalAssignment great_circle 0 (store_equator 10000) 1)
     = Inr [(7, \<lparr> distance = 0, competence = 100, materials = 100, workload = 100 \<rparr>, 60)]"
proof -
  have q: "getRequiredCompetences (wo_type (odl_at 10 (meridian_degrees 10000))) = []
           \<and> getRequiredMaterials (wo_type (odl_at 10 (meridian_degrees 10000))) = []"
    by (simp add: odl_at_def odl1_def no_requirements)
  have t: "map (\<lambda>t. (t_id t, t_current_location t)) (teams (store_equator 10000))
           = [(7, Some (10, 0))]"
    by (simp add: store_equator_def empty_store_def squadra_equatore_def squadra1_def)
  have l: "map wo_location (work_orders (store_equator 10000)) = [Some (10, meridian_degrees 10000)]"
    by (simp add: store_equator_def empty_store_def odl_at_def)
  have g: "getScoringWeights (store_equator 10000)
           = \<lparr> distance = 0.40, competence = 0.25, materials = 0.20, workload = 0.15 \<rparr>"
    by (rule getScoringWeights_absent)
       (simp_all add: config_text_def store_equator_def empty_store_def)
  have sc: "team_scores great_circle 0 (store_equator 10000) (odl_at 10 (meridian_degrees 10000))
              equator_row
            = \<lparr> distance = 0, competence = 100, materials = 100, workload = 100 \<rparr>"
    using q
    by (simp add: team_scores_def calculateDistanceScore_def falsy_def equator_row_def
                  calculateCompetenceScore_def calculateMaterialsScore_def
                  calculateWorkloadScore_def)
  have i: "tr_id equator_row = 7" and a: "tr_active_work_orders equator_row = 0"
    by (simp_all add: equator_row_def)
  have e: "map_sum id (map (\<lambda>e. (team_id e, scores e, total_score e)))
        (calculateOptimalAssignment great_circle 0 (store_equator 10000) 1)
     = Inr [(7, \<lparr> distance = 0, competence = 100, materials = 100, workload = 100 \<rparr>, 60)]"
    unfolding assignment_equator using i
    by (simp add: score_team_def sc g totalScore_def)
  from q t l great_circle_equator_10 candidates_equator [of 10000] a g e show ?thesis
    by blast
qed

text \<open>
  The team in Rome and an order 10 km north of it on the same meridian, nothing
  configured.
\<close>

theorem aggregate_example_witness:
  "getRequiredCompetences (wo_type (odl_at 12.4 (41.8 + meridian_degrees 10000))) = []
   \<and> getRequiredMaterials (wo_type (odl_at 12.4 (41.8 + meridian_degrees 10000))) = []
   \<and> tr_latitude rome_row = Some 41.8 \<and> tr_longitude rome_row = Some 12.4
   \<and> filter (\<lambda>w. wo_id w = wo_id (odl_at 12.4 (41.8 + meridian_degrees 10000)))
        (work_orders (store_rome 10000))
     = [odl_at 12.4 (41.8 + meridian_degrees 10000)]
   \<and> wo_location (odl_at 12.4 (41.8 + meridian_degrees 10000))
     = Some (12.4, 41.8 + meridian_degrees 10000)
   \<and> 0 < 41.8 + meridian_degrees 10000
   \<and> great_circle (41.8, 12.4) (41.8 + meridian_degrees 10000, 12.4) = 10000
   \<and> tr_active_work_orders rome_row = 0
   \<and> getScoringWeights (store_rome 10000)
     = \<lparr> distance = 0.40, competence = 0.25, materials = 0.20, workload = 0.15 \<rparr>
   \<and> map_sum id (map (\<lambda>e. (team_id e, scores e, total_score e)))
        (calculateOptimalAssignment great_circle 0 (store_rome 10000) 1)
     = Inr [(7, \<lparr> distance = 90, competence = 100, materials = 100, workload = 100 \<rparr>, 96)]"
proof -
  let ?odl = "odl_at 12.4 (41.8 + meridian_degrees 10000)"
  have q: "getRequiredCompetences (wo_type ?odl) = [] \<and> getRequiredMaterials (wo_type ?odl) = []"
    by (simp add: odl_at_def odl1_def no_requirements)
  have h: "tr_latitude rome_row = Some 41.8 \<and> tr_longitude rome_row = Some 12.4
           \<and> tr_active_work_orders rome_row = 0"
    by (simp add: rome_row_def)
  have i: "tr_id rome_row = 7"
    by (simp add: rome_row_def)
  have f: "filter (\<lambda>w. wo_id w = wo_id ?odl) (work_orders (store_rome 10000)) = [?odl]"
    by (simp add: store_rome_def empty_store_def)
  have l: "wo_location ?odl = Some (12.4, 41.8 + meridian_degrees 10000)"
    by (simp add: odl_at_def)
  have p: "0 < 41.8 + meridian_degrees 10000"
    using meridian_degrees_pos [of 10000] by simp
  have n: "(41.8::real) \<noteq> 0 \<and> (12.4::real) \<noteq> 0 \<and> 41.8 + meridian_degrees 10000 \<noteq> 0
           \<and> wo_location ?odl \<noteq> None"
    using p l by simp
  have c: "config_text (store_rome 10000) ''scoring_weight_distance'' = None
      \<and> config_text (store_rome 10000) ''scoring_weight_competence'' = None
      \<and> config_text (store_rome 10000) ''scoring_weight_materials'' = None
      \<and> config_text (store_rome 10000) ''scoring_weight_workload'' = None"
    by (simp add: config_text_def store_rome_def empty_store_def)
  note ex = aggregate_example
              [where workOrder = ?odl and team = rome_row and tlat = "41.8" and tlon = "12.4"
                 and s = "store_rome 10000" and odl = ?odl and rest = "[]" and lon = "12.4"
                 and lat = "41.8 + meridian_degrees 10000"
                 and getDistance = great_circle and curdate = 0
                 and weights = "getScoringWeights (store_rome 10000)"]
  have g: "getScoringWeights (store_rome 10000)
     = \<lparr> distance = 0.40, competence = 0.25, materials = 0.20, workload = 0.15 \<rparr>"
    using ex c by blast
  have sc: "scores (score_team great_circle 0 (store_rome 10000)
                      (getScoringWeights (store_rome 10000)) ?odl rome_row)
     = \<lparr> distance = 90, competence = 100, materials = 100, workload = 100 \<rparr>
     \<and> total_score (score_team great_circle 0 (store_rome 10000)
                      (getScoringWeights (store_rome 10000)) ?odl rome_row) = 96"
    using ex q h f l n great_circle_rome_10 g by blast
  have e: "map_sum id (map (\<lambda>e. (team_id e, scores e, total_score e)))
        (calculateOptimalAssignment great_circle 0 (store_rome 10000) 1)
     = Inr [(7, \<lparr> distance = 90, competence = 100, materials = 100, workload = 100 \<rparr>, 96)]"
    unfolding assignment_rome using sc i by simp
  from q h f l p great_circle_rome_10 g e show ?thesis by blast
qed

section \<open>Optimal assignment\<close>




section \<open>Scoring weights\<close>

text \<open>
  C10, amended: a weight whose stored text parses to 0 or to NaN, or is absent, is
  replaced by its default (0.40, 0.25, 0.20, 0.15); so no weight is ever 0, and a weight
  is strictly positive unless its stored text parses to a negative number.
\<close>

theorem getScoringWeights_defaults:
  "(parseFloat (config_text s ''scoring_weight_distance'') = None
      \<or> parseFloat (config_text s ''scoring_weight_distance'') = Some 0
     \<longrightarrow> distance (getScoringWeights s) = 0.40)
   \<and> (parseFloat (config_text s ''scoring_weight_competence'') = None
      \<or> parseFloat (config_text s ''scoring_weight_competence'') = Some 0
     \<longrightarrow> competence (getScoringWeights s) = 0.25)
   \<and> (parseFloat (config_text s ''scoring_weight_materials'') = None
      \<or> parseFloat (config_text s ''scoring_weight_materials'') = Some 0
     \<longrightarrow> materials (getScoringWeights s) = 0.20)
   \<and> (parseFloat (config_text s ''scoring_weight_workload'') = None
      \<or> parseFloat (config_text s ''scoring_weight_workload'') = Some 0
     \<longrightarrow> workload (getScoringWeights s) = 0.15)
   \<and> distance (getScoringWeights s) \<noteq> 0 \<and> competence (getScoringWeights s) \<noteq> 0
   \<and> materials (getScoringWeights s) \<noteq> 0 \<and> workload (getScoringWeights s) \<noteq> 0
   \<and> (\<not> (\<exists>v. parseFloat (config_text s ''scoring_weight_distance'') = Some v \<and> v < 0)
      \<longrightarrow> 0 < distance (getScoringWeights s))
   \<and> (\<not> (\<exists>v. parseFloat (config_text s ''scoring_weight_competence'') = Some v \<and> v < 0)
      \<longrightarrow> 0 < competence (getScoringWeights s))
   \<and> (\<not> (\<exists>v. parseFloat (config_text s ''scoring_weight_materials'') = Some v \<and> v < 0)
      \<longrightarrow> 0 < materials (getScoringWeights s))
   \<and> (\<not> (\<exists>v. parseFloat (config_text s ''scoring_weight_workload'') = Some v \<and> v < 0)
      \<longrightarrow> 0 < workload (getScoringWeights s))"
  by (simp add: getScoringWeights_def or_default_falsy or_default_nonzero or_default_pos)

text \<open>
  The claim as stated fails for the stored text -0.5: the distance weight is -0.5, not
  strictly positive.
\<close>

theorem getScoringWeights_negative_counterexample:
  "distance (getScoringWeights store_negative_weight) = - 1 / 2
   \<and> \<not> 0 < distance (getScoringWeights store_negative_weight)"
  by (simp add: getScoringWeights_def store_negative_weight_def empty_store_def config_text_def
                parse_minus_half or_default_def)

text \<open>Stored texts 0, n/a and 0.0, and no text for the workload.\<close>

theorem getScoringWeights_defaults_witness:
  "parseFloat (config_text store_zero_weights ''scoring_weight_distance'') = Some 0
   \<and> parseFloat (config_text store_zero_weights ''scoring_weight_competence'') = None
   \<and> parseFloat (config_text store_zero_weights ''scoring_weight_materials'') = Some 0
   \<and> parseFloat (config_text store_zero_weights ''scoring_weight_workload'') = None
   \<and> getScoringWeights store_zero_weights
     = \<lparr> distance = 0.40, competence = 0.25, materials = 0.20, workload = 0.15 \<rparr>"
proof -
  have d: "parseFloat (config_text store_zero_weights ''scoring_weight_distance'') = Some 0"
    by (simp add: store_zero_weights_def empty_store_def config_text_def parse_zero)
  have c: "parseFloat (config_text store_zero_weights ''scoring_weight_competence'') = None"
    by (simp add: store_zero_weights_def empty_store_def config_text_def parse_na)
  have m: "parseFloat (config_text store_zero_weights ''scoring_weight_materials'') = Some 0"
    by (simp add: store_zero_weights_def empty_store_def config_text_def parse_zero_point)
  have w: "parseFloat (config_text store_zero_weights ''scoring_weight_workload'') = None"
    by (simp add: store_zero_weights_def empty_store_def config_text_def parseFloat_def)
  from getScoringWeights_defaults [of store_zero_weights] d c m w
  have "distance (getScoringWeights store_zero_weights) = 0.40
        \<and> competence (getScoringWeights store_zero_weights) = 0.25
        \<and> materials (getScoringWeights store_zero_weights) = 0.20
        \<and> workload (getScoringWeights store_zero_weights) = 0.15"
    by simp
  then have "getScoringWeights store_zero_weights
     = \<lparr> distance = 0.40, competence = 0.25, materials = 0.20, workload = 0.15 \<rparr>"
    by (cases "getScoringWeights store_zero_weights") simp
  with d c m w show ?thesis by simp
qed

end